theory Spec2Isabelle
  imports Complex_Main "HOL-Library.Sublist"
begin

section \<open>JavaScript values used by the sources\<close>

text \<open>
  A JavaScript \<open>Error\<close> has a name, a message and a stack text. \<open>new Error(m)\<close> sets the
  name to \<open>Error\<close>; the stack text starts with name and message (the frames that follow are
  left out, nothing below reads them).
\<close>

record jsError =
  name :: string
  message :: string
  stack :: string

definition newError :: "string \<Rightarrow> jsError" where
  "newError m = \<lparr>name = ''Error'', message = m, stack = ''Error: '' @ m\<rparr>"

text \<open>Calling a binding that holds \<open>undefined\<close> raises a \<open>TypeError\<close>.\<close>

definition notAFunction :: "string \<Rightarrow> jsError" where
  "notAFunction v =
     \<lparr>name = ''TypeError'', message = v @ '' is not a function'',
      stack = ''TypeError: '' @ v @ '' is not a function''\<rparr>"

text \<open>\<open>haystack.includes(needle)\<close>: the needle occurs as a contiguous run.\<close>

fun strIncludes :: "string \<Rightarrow> string \<Rightarrow> bool" where
  "strIncludes [] needle = (needle = [])"
| "strIncludes (c # cs) needle = (prefix needle (c # cs) \<or> strIncludes cs needle)"

text \<open>Decimal text of a number, as a template literal or \<open>String(n)\<close> prints an integer.\<close>

definition digitChar :: "nat \<Rightarrow> char" where
  "digitChar d = ''0123456789'' ! d"

fun showNat :: "nat \<Rightarrow> string" where
  "showNat n = (if n < 10 then [digitChar n] else showNat (n div 10) @ [digitChar (n mod 10)])"

declare showNat.simps [simp del]

definition showInt :: "int \<Rightarrow> string" where
  "showInt i = (if i < 0 then CHR ''-'' # showNat (nat (- i)) else showNat (nat i))"

text \<open>\<open>s.padStart(n, '0')\<close>.\<close>

definition padStart :: "nat \<Rightarrow> char \<Rightarrow> string \<Rightarrow> string" where
  "padStart n c s = replicate (n - length s) c @ s"

text \<open>
  A JavaScript number that is used as a count (an attempt number, the retries left) is a
  double: it need not be an integer, and a sum or difference is rounded to the nearest
  double. Such numbers are modelled as finite reals; the rounding is the runtime's and is taken
  as given, as a function from the exact result to the double that is stored. What is known
  of it, and all that is used, is that it leaves a safe integer (\<open>Number.isSafeInteger\<close>)
  as it is.
\<close>

definition isSafeInteger :: "real \<Rightarrow> bool" where
  "isSafeInteger x = (x \<in> \<int> \<and> \<bar>x\<bar> \<le> 2 ^ 53 - 1)"

definition exactOnSafeIntegers :: "(real \<Rightarrow> real) \<Rightarrow> bool" where
  "exactOnSafeIntegers rnd = (\<forall>x. isSafeInteger x \<longrightarrow> rnd x = x)"

section \<open>core: use-media-buffering.ts\<close>

text \<open>
  The effect of \<open>useMediaBuffering\<close>. The element keeps its listeners; the local binding
  \<open>cleanup\<close> is declared without a value (\<open>None\<close>) and is assigned only inside
  \<open>onWaiting\<close>. \<open>buffer.delayPlayback()\<close> hands out a handle whose \<open>unblock\<close> releases
  it; the handles still blocking playback are kept in \<open>blocking\<close>.
\<close>

datatype listener = OnWaiting | OnCanPlay nat

datatype cleanupFn = RemoveCanPlay nat

record effectState =
  waitingListeners :: "listener list"
  canplayListeners :: "listener list"
  cleanupVar :: "cleanupFn option"
  blocking :: "nat list"
  nextHandle :: nat

definition initialEffectState :: effectState where
  "initialEffectState =
     \<lparr>waitingListeners = [], canplayListeners = [], cleanupVar = None,
      blocking = [], nextHandle = 0\<rparr>"

text \<open>
  Running the effect body. The result is \<open>None\<close> where the body returns early (no cleanup
  function is handed to React), and the state together with the returned cleanup function
  otherwise. \<open>hasElement\<close> is \<open>element.current\<close> being non-null.
\<close>

definition useMediaBufferingEffect :: "bool \<Rightarrow> bool \<Rightarrow> effectState option" where
  "useMediaBufferingEffect hasElement shouldBuffer =
     (if \<not> hasElement then None
      else if \<not> shouldBuffer then None
      else Some (initialEffectState\<lparr>waitingListeners := [OnWaiting]\<rparr>))"

text \<open>The listener \<open>onWaiting\<close>, and the \<open>once\<close> listener \<open>onCanPlay\<close> it registers.\<close>

definition onWaiting :: "effectState \<Rightarrow> effectState" where
  "onWaiting s =
     (let h = nextHandle s in
      s\<lparr>blocking := blocking s @ [h], nextHandle := Suc h,
        canplayListeners := canplayListeners s @ [OnCanPlay h],
        cleanupVar := Some (RemoveCanPlay h)\<rparr>)"

datatype mediaEvent = Waiting | CanPlay

fun runListener :: "listener \<Rightarrow> effectState \<Rightarrow> effectState" where
  "runListener OnWaiting s = onWaiting s"
| "runListener (OnCanPlay h) s =
     s\<lparr>blocking := removeAll h (blocking s),
       canplayListeners := removeAll (OnCanPlay h) (canplayListeners s)\<rparr>"

fun dispatchEvent :: "mediaEvent \<Rightarrow> effectState \<Rightarrow> effectState" where
  "dispatchEvent Waiting s = fold runListener (waitingListeners s) s"
| "dispatchEvent CanPlay s = fold runListener (canplayListeners s) s"

text \<open>The function the effect returns: \<open>() => { cleanup(); }\<close>.\<close>

definition effectCleanup :: "effectState \<Rightarrow> jsError + effectState" where
  "effectCleanup s =
     (case cleanupVar s of
        None \<Rightarrow> Inl (notAFunction ''cleanup'')
      | Some (RemoveCanPlay h) \<Rightarrow>
          Inr (s\<lparr>canplayListeners := removeAll (OnCanPlay h) (canplayListeners s)\<rparr>))"

text \<open>Mount, a sequence of events on the element, then unmount.\<close>

definition mountEventsUnmount :: "bool \<Rightarrow> bool \<Rightarrow> mediaEvent list \<Rightarrow> (jsError + effectState) option" where
  "mountEventsUnmount hasElement shouldBuffer evs =
     (case useMediaBufferingEffect hasElement shouldBuffer of
        None \<Rightarrow> None
      | Some s \<Rightarrow> Some (effectCleanup (fold dispatchEvent evs s)))"

section \<open>lambda: shared/call-lambda.ts\<close>

text \<open>The contents of a \<open>Uint8Array\<close>: a list of octets (a \<open>char\<close> is one octet).\<close>

type_synonym bytes = "char list"

definition INVALID_JSON_MESSAGE :: string where
  "INVALID_JSON_MESSAGE = ''Cannot parse Lambda response as JSON''"

definition STREAM_STALL_TIMEOUT :: nat where
  "STREAM_STALL_TIMEOUT = 30000 * 2"

definition LAMBDA_STREAM_STALL :: string where
  "LAMBDA_STREAM_STALL = ''AWS did not invoke Lambda in '' @ showNat STREAM_STALL_TIMEOUT @ ''ms''"

text \<open>
  What the client imports from \<open>streaming.ts\<close> and from the runtime and does not define
  itself is taken as given: the table from message type ids to message types, the format
  table, \<open>TextDecoder.decode\<close> and \<open>JSON.parse\<close> (\<open>None\<close> where it throws). A message
  type is a string, as in the source.
\<close>

datatype payloadFormat = FormatJson | FormatBinary

record ('id, 'j) streamingTables =
  messageTypeIdToMessageType :: "'id \<Rightarrow> string"
  formatMap :: "string \<Rightarrow> payloadFormat"
  textDecode :: "bytes \<Rightarrow> string"
  jsonParse :: "string \<Rightarrow> 'j option"

definition parseJsonOrThrowSource ::
  "('id, 'j) streamingTables \<Rightarrow> bytes \<Rightarrow> string \<Rightarrow> jsError + 'j" where
  "parseJsonOrThrowSource tb data type =
     (let asString = textDecode tb data in
      case jsonParse tb asString of
        Some v \<Rightarrow> Inr v
      | None \<Rightarrow> Inl (newError (''Invalid JSON ('' @ type @ ''): '' @ asString)))"

datatype statusType = StatusSuccess | StatusError

datatype 'j payload = Structured 'j | RawBytes bytes

record 'j streamingMessage =
  successType :: statusType
  msgType :: string
  msgPayload :: "'j payload"

text \<open>The expression bound to \<open>innerPayload\<close> in the callback given to \<open>makeStreamer\<close>.\<close>

definition innerPayload ::
  "('id, 'j) streamingTables \<Rightarrow> string \<Rightarrow> bytes \<Rightarrow> jsError + 'j payload" where
  "innerPayload tb messageType data =
     (if formatMap tb messageType = FormatJson
      then (case parseJsonOrThrowSource tb data messageType of
              Inl e \<Rightarrow> Inl e
            | Inr v \<Rightarrow> Inr (Structured v))
      else Inr (RawBytes data))"

text \<open>
  A message handler (\<open>OnMessage\<close>) works on a state of the caller; it returns the state it
  leaves behind and the exception it raised, if any.
\<close>

type_synonym ('j, 'st) onMessage = "'st \<Rightarrow> 'j streamingMessage \<Rightarrow> 'st \<times> jsError option"

type_synonym 'id frame = "statusType \<times> 'id \<times> bytes"

definition streamerCallback ::
  "('id, 'j) streamingTables \<Rightarrow> ('j, 'st) onMessage \<Rightarrow> 'st \<Rightarrow> 'id frame \<Rightarrow> 'st \<times> jsError option" where
  "streamerCallback tb receivedStreamingPayload st fr =
     (case fr of (status, messageTypeId, data) \<Rightarrow>
        (let messageType = messageTypeIdToMessageType tb messageTypeId in
         case innerPayload tb messageType data of
           Inl e \<Rightarrow> (st, Some e)
         | Inr p \<Rightarrow>
             receivedStreamingPayload st
               \<lparr>successType = status, msgType = messageType, msgPayload = p\<rparr>))"

text \<open>
  The stall guard. The invocation's promise settles at some time (milliseconds after the
  call) or never; the timer is armed for \<open>STREAM_STALL_TIMEOUT\<close>. When both fall on the same
  millisecond the event loop decides the order; \<open>timerFirstAtTie\<close> is its decision.
  \<open>cleanup()\<close> (\<open>clearTimeout\<close>) runs only when the awaited race did not throw.
\<close>

datatype 'r settles = ResolvesAt nat 'r | RejectsAt nat jsError | NeverSettles

datatype timerState = TimerPending | TimerCleared | TimerFired

definition invokeStreamOrTimeout ::
  "bool \<Rightarrow> 'r settles \<Rightarrow> (jsError + 'r) \<times> timerState" where
  "invokeStreamOrTimeout timerFirstAtTie resProm =
     (let beforeTimer = (\<lambda>t. t < STREAM_STALL_TIMEOUT \<or> (t = STREAM_STALL_TIMEOUT \<and> \<not> timerFirstAtTie));
          stalled = (Inl (newError LAMBDA_STREAM_STALL), TimerFired)
      in case resProm of
           ResolvesAt t res \<Rightarrow> if beforeTimer t then (Inr res, TimerCleared) else stalled
         | RejectsAt t err \<Rightarrow> if beforeTimer t then (Inl err, TimerPending) else stalled
         | NeverSettles \<Rightarrow> stalled)"

text \<open>
  The response of a streaming invocation: its request id and the events of its stream. A
  \<open>PayloadChunk\<close> is given by the frames that the decoder of \<open>makeStreamer\<close> completes on
  its bytes (the decoder is not part of these sources); \<open>StreamThrows\<close> is the iteration
  itself failing, as on a dropped connection.
\<close>

datatype 'id streamEvent =
    PayloadChunk "'id frame list"
  | InvokeComplete "string option" string
  | StreamThrows jsError

record 'id invokeResponse =
  requestId :: string
  eventStream :: "'id streamEvent list"

record 'id invocation =
  resProm :: "'id invokeResponse settles"
  timerFirstAtTie :: bool

record invokeOptions =
  functionName :: string
  region :: string

definition logsUrl :: "invokeOptions \<Rightarrow> string \<Rightarrow> string" where
  "logsUrl opts reqId =
     ''https://'' @ region opts @ ''.console.aws.amazon.com/cloudwatch/home?region='' @ region opts
     @ ''#logsV2:logs-insights$3FqueryDetail$3D~(end~0~start~-3600~timeType~'RELATIVE~unit~'seconds~editorString~'fields*20*40timestamp*2c*20*40requestId*2c*20*40message*0a*7c*20filter*20*40requestId*20like*20*''
     @ reqId @ ''*22*0a*7c*20sort*20*40timestamp*20asc~source~(~'*2faws*2flambda*2f''
     @ functionName opts @ ''))''"

definition invokeCompleteError :: "invokeOptions \<Rightarrow> string \<Rightarrow> string \<Rightarrow> string \<Rightarrow> jsError" where
  "invokeCompleteError opts reqId errorCode errorDetails =
     (if errorCode = ''Unhandled''
      then newError (''Lambda function '' @ functionName opts @ '' failed with an unhandled error: ''
             @ errorDetails @ '' See '' @ logsUrl opts reqId @ '' to see the logs of this invocation.'')
      else newError (''Lambda function '' @ functionName opts @ '' failed with error code '' @ errorCode
             @ '': '' @ errorDetails @ ''. See '' @ logsUrl opts reqId @ '' to see the logs of this invocation.''))"

fun onData :: "('st \<Rightarrow> 'id frame \<Rightarrow> 'st \<times> jsError option) \<Rightarrow> 'st \<Rightarrow> 'id frame list \<Rightarrow> 'st \<times> jsError option" where
  "onData cb st [] = (st, None)"
| "onData cb st (fr # frs) =
     (case cb st fr of
        (st', Some e) \<Rightarrow> (st', Some e)
      | (st', None) \<Rightarrow> onData cb st' frs)"

text \<open>The \<open>for await\<close> loop; an empty \<open>ErrorCode\<close> is falsy.\<close>

fun forAwaitEvents ::
  "invokeOptions \<Rightarrow> string \<Rightarrow> ('st \<Rightarrow> 'id frame \<Rightarrow> 'st \<times> jsError option) \<Rightarrow> 'st \<Rightarrow> 'id streamEvent list
     \<Rightarrow> 'st \<times> jsError option" where
  "forAwaitEvents opts reqId cb st [] = (st, None)"
| "forAwaitEvents opts reqId cb st (PayloadChunk frs # evs) =
     (case onData cb st frs of
        (st', Some e) \<Rightarrow> (st', Some e)
      | (st', None) \<Rightarrow> forAwaitEvents opts reqId cb st' evs)"
| "forAwaitEvents opts reqId cb st (InvokeComplete errorCode errorDetails # evs) =
     (case errorCode of
        None \<Rightarrow> forAwaitEvents opts reqId cb st evs
      | Some c \<Rightarrow>
          if c = [] then forAwaitEvents opts reqId cb st evs
          else (st, Some (invokeCompleteError opts reqId c errorDetails)))"
| "forAwaitEvents opts reqId cb st (StreamThrows e # evs) = (st, Some e)"

definition callLambdaWithStreamingWithoutRetry ::
  "('id, 'j) streamingTables \<Rightarrow> invokeOptions \<Rightarrow> ('j, 'st) onMessage \<Rightarrow> 'st \<Rightarrow> 'id invocation
     \<Rightarrow> 'st \<times> jsError option" where
  "callLambdaWithStreamingWithoutRetry tb opts receivedStreamingPayload st ivk =
     (case fst (invokeStreamOrTimeout (timerFirstAtTie ivk) (resProm ivk)) of
        Inl e \<Rightarrow> (st, Some e)
      | Inr res \<Rightarrow>
          forAwaitEvents opts (requestId res) (streamerCallback tb receivedStreamingPayload) st
            (eventStream res))"

text \<open>
  The retrying client. The invocations it may issue are given in order, one per attempt; it
  uses as many as it needs. \<open>retriesRemaining\<close> is a JavaScript number; the only test on it
  is \<open>=== 0\<close>. A promise is pending, fulfilled or rejected; the call stays pending when the
  given invocations run out before it settles. Beside the handler's state and the promise,
  the result counts the invocations that were issued.
\<close>

datatype promiseState = Pending | Fulfilled | Rejected jsError

definition retryTrigger :: "jsError \<Rightarrow> bool" where
  "retryTrigger err =
     (\<not> (\<not> strIncludes (message err) INVALID_JSON_MESSAGE \<and>
         \<not> strIncludes (message err) LAMBDA_STREAM_STALL \<and>
         \<not> strIncludes (message err) ''aborted''))"

fun callLambdaWithStreaming ::
  "('id, 'j) streamingTables \<Rightarrow> invokeOptions \<Rightarrow> ('j, 'st) onMessage \<Rightarrow> int \<Rightarrow> 'st \<Rightarrow> 'id invocation list
     \<Rightarrow> ('st \<times> promiseState) \<times> nat" where
  "callLambdaWithStreaming tb opts h retriesRemaining st [] = ((st, Pending), 0)"
| "callLambdaWithStreaming tb opts h retriesRemaining st (ivk # ivks) =
     (case callLambdaWithStreamingWithoutRetry tb opts h st ivk of
        (st', None) \<Rightarrow> ((st', Fulfilled), 1)
      | (st', Some err) \<Rightarrow>
          if retriesRemaining = 0 then ((st', Rejected err), 1)
          else if \<not> retryTrigger err then ((st', Rejected err), 1)
          else (case callLambdaWithStreaming tb opts h (retriesRemaining - 1) st' ivks of
                  (r, n) \<Rightarrow> (r, Suc n)))"

text \<open>The frames that an invocation can deliver to the callback.\<close>

fun eventFrames :: "'id streamEvent \<Rightarrow> 'id frame list" where
  "eventFrames (PayloadChunk frs) = frs"
| "eventFrames (InvokeComplete c d) = []"
| "eventFrames (StreamThrows e) = []"

definition framesOf :: "'id invocation \<Rightarrow> 'id frame list" where
  "framesOf ivk =
     (case resProm ivk of
        ResolvesAt t res \<Rightarrow> concat (map eventFrames (eventStream res))
      | RejectsAt t e \<Rightarrow> []
      | NeverSettles \<Rightarrow> [])"

section \<open>lambda: functions/helpers/stream-renderer.ts\<close>

text \<open>
  The fields of the renderer payload (the chunk's description) that the functions below
  read. \<open>chunk\<close> and \<open>frameRange\<close> may be absent at run time (the worker tests for it).
  \<open>attempt\<close> and \<open>retriesLeft\<close> are numbers that the code adds to and subtracts from.
\<close>

datatype lambdaRoutine = Renderer | OtherRoutine

record lambdaPayload =
  ptype :: lambdaRoutine
  chunk :: "int option"
  attempt :: real
  retriesLeft :: real
  launchVersion :: string
  frameRange :: "(int \<times> int) option"
  codec :: string
  progressEveryNthFrame :: int
  logLevel :: string

definition showChunk :: "int option \<Rightarrow> string" where
  "showChunk c = (case c of None \<Rightarrow> ''undefined'' | Some n \<Rightarrow> showInt n)"

text \<open>
  \<open>OverallProgressHelper\<close> is used through its operations only; the state keeps the calls
  made on it, in order. \<open>written\<close> are the calls of \<open>writeFileSync\<close>, \<open>files\<close> the
  caller's array, \<open>resolved\<close> the promise created by \<open>streamRenderer\<close> (the first
  \<open>resolve\<close> settles it, later ones do nothing), and \<open>requests\<close> the payloads handed
  to \<open>callLambdaWithStreaming\<close>, one per chunk attempt. Log output is left out.
\<close>

datatype 'ei progressCall =
    SetLambdaInvoked "int option"
  | SetFrames "int option" int int
  | AddChunkCompleted "int option" int int
  | AddErrorWithoutUpload 'ei
  | AddRetry real int "int option"

datatype streamRendererResponse = Success | Error string bool

record ('j, 'ei) rendererState =
  progressCalls :: "'ei progressCall list"
  written :: "(string \<times> 'j payload) list"
  files :: "string list"
  resolved :: "streamRendererResponse option"
  requests :: "lambdaPayload list"

text \<open>
  Reading a field of a received payload, joining a path and writing a file are taken as
  given (\<open>writeFileSync\<close> yields the exception it throws, if any). \<open>payloadEncoded\<close>
  stands for \<open>message.payload.encoded\<close>, and so on. \<open>roundNumber\<close> is the rounding of
  an arithmetic result to a double.
\<close>

record ('j, 'ei) rendererEnv =
  pathJoin :: "string \<Rightarrow> string \<Rightarrow> string"
  writeFileSync :: "string \<Rightarrow> 'j payload \<Rightarrow> jsError option"
  payloadEncoded :: "'j payload \<Rightarrow> int"
  payloadRendered :: "'j payload \<Rightarrow> int"
  payloadStart :: "'j payload \<Rightarrow> int"
  payloadError :: "'j payload \<Rightarrow> string"
  payloadShouldRetry :: "'j payload \<Rightarrow> bool"
  payloadErrorInfo :: "'j payload \<Rightarrow> 'ei"
  roundNumber :: "real \<Rightarrow> real"

definition resolve ::
  "streamRendererResponse \<Rightarrow> ('j, 'ei) rendererState \<Rightarrow> ('j, 'ei) rendererState" where
  "resolve r s = (case resolved s of None \<Rightarrow> s\<lparr>resolved := Some r\<rparr> | Some r' \<Rightarrow> s)"

definition progressCall ::
  "'ei progressCall \<Rightarrow> ('j, 'ei) rendererState \<Rightarrow> ('j, 'ei) rendererState" where
  "progressCall c s = s\<lparr>progressCalls := progressCalls s @ [c]\<rparr>"

definition chunkFilename :: "('j, 'ei) rendererEnv \<Rightarrow> string \<Rightarrow> lambdaPayload \<Rightarrow> string \<Rightarrow> string" where
  "chunkFilename env outdir payload kind =
     pathJoin env outdir (''chunk:'' @ padStart 8 (CHR ''0'') (showChunk (chunk payload)) @ '':'' @ kind)"

definition receivedStreamingPayload ::
  "('j, 'ei) rendererEnv \<Rightarrow> lambdaPayload \<Rightarrow> string \<Rightarrow> ('j, ('j, 'ei) rendererState) onMessage" where
  "receivedStreamingPayload env payload outdir s m =
     (if msgType m = ''lambda-invoked'' then
        (progressCall (SetLambdaInvoked (chunk payload)) s, None)
      else if msgType m = ''frames-rendered'' then
        (progressCall (SetFrames (chunk payload) (payloadEncoded env (msgPayload m))
           (payloadRendered env (msgPayload m))) s, None)
      else if msgType m = ''video-chunk-rendered'' then
        (let filename = chunkFilename env outdir payload ''video'' in
         case writeFileSync env filename (msgPayload m) of
           Some e \<Rightarrow> (s, Some e)
         | None \<Rightarrow>
             (s\<lparr>written := written s @ [(filename, msgPayload m)], files := files s @ [filename]\<rparr>,
              None))
      else if msgType m = ''audio-chunk-rendered'' then
        (let filename = chunkFilename env outdir payload ''audio'' in
         case writeFileSync env filename (msgPayload m) of
           Some e \<Rightarrow> (s, Some e)
         | None \<Rightarrow>
             (s\<lparr>written := written s @ [(filename, msgPayload m)], files := files s @ [filename]\<rparr>,
              None))
      else if msgType m = ''chunk-complete'' then
        (progressCall (AddChunkCompleted (chunk payload) (payloadStart env (msgPayload m))
           (payloadRendered env (msgPayload m))) s, None)
      else if msgType m = ''error-occurred'' then
        (resolve (Error (payloadError env (msgPayload m)) (payloadShouldRetry env (msgPayload m)))
           (progressCall (SetFrames (chunk payload) 0 0)
              (progressCall (AddErrorWithoutUpload (payloadErrorInfo env (msgPayload m))) s)),
         None)
      else (s, Some (newError (''Unknown message type '' @ msgType m))))"

text \<open>
  \<open>streamRenderer\<close>: a fresh promise, the call of the client with two retries
  (\<open>streamingCall\<close>), and the two continuations on the client's promise. The result is the
  state, whose \<open>resolved\<close> field is what the returned promise holds.
\<close>

definition streamingCall ::
  "('id, 'j) streamingTables \<Rightarrow> ('j, 'ei) rendererEnv \<Rightarrow> invokeOptions \<Rightarrow> string \<Rightarrow> lambdaPayload
     \<Rightarrow> ('j, 'ei) rendererState \<Rightarrow> 'id invocation list \<Rightarrow> ('j, 'ei) rendererState \<times> promiseState" where
  "streamingCall tb env opts outdir payload s ivks =
     fst (callLambdaWithStreaming tb opts (receivedStreamingPayload env payload outdir) 2
            (s\<lparr>resolved := None, requests := requests s @ [payload]\<rparr>) ivks)"

definition streamRenderer ::
  "('id, 'j) streamingTables \<Rightarrow> ('j, 'ei) rendererEnv \<Rightarrow> invokeOptions \<Rightarrow> string \<Rightarrow> lambdaPayload
     \<Rightarrow> ('j, 'ei) rendererState \<Rightarrow> 'id invocation list \<Rightarrow> jsError + ('j, 'ei) rendererState" where
  "streamRenderer tb env opts outdir payload s ivks =
     (if ptype payload \<noteq> Renderer then Inl (newError ''Expected renderer type'')
      else
        (case streamingCall tb env opts outdir payload s ivks of
           (s1, Fulfilled) \<Rightarrow> Inr (resolve Success s1)
         | (s1, Rejected err) \<Rightarrow> Inr (resolve (Error (stack err) False) s1)
         | (s1, Pending) \<Rightarrow> Inr s1))"

text \<open>
  \<open>streamRendererFunctionWithRetry\<close>. For each chunk attempt the remote side is given as
  its answer to the payload sent (the invocations the client may issue), together with the
  clock reading \<open>Date.now()\<close> taken when the attempt has failed. The function throws the
  error text of a failure (a string), or an \<open>Error\<close> for a wrong payload type.
  \<open>retryPayload\<close> is the payload built for the retry, with the two numbers as the
  runtime stores them. An attempt's stream is run to its end before the resolution is read;
  the code goes on at the first \<open>resolve\<close>, while the rest of that stream is still being
  consumed, so calls on the progress helper and file writes of two attempts can interleave
  there. The requests, the resolution of each attempt and the outcome are the same.
\<close>

definition retryPayload :: "('j, 'ei) rendererEnv \<Rightarrow> lambdaPayload \<Rightarrow> lambdaPayload" where
  "retryPayload env payload =
     payload\<lparr>attempt := roundNumber env (attempt payload + 1),
             retriesLeft := roundNumber env (retriesLeft payload - 1)\<rparr>"

record 'id chunkAttempt =
  respond :: "lambdaPayload \<Rightarrow> 'id invocation list"
  dateNow :: int

datatype thrown = ThrownError jsError | ThrownString string

datatype outcome = Returned | Threw thrown | StillRunning

fun streamRendererFunctionWithRetry ::
  "('id, 'j) streamingTables \<Rightarrow> ('j, 'ei) rendererEnv \<Rightarrow> invokeOptions \<Rightarrow> string \<Rightarrow> lambdaPayload
     \<Rightarrow> ('j, 'ei) rendererState \<Rightarrow> 'id chunkAttempt list \<Rightarrow> ('j, 'ei) rendererState \<times> outcome" where
  "streamRendererFunctionWithRetry tb env opts outdir payload s ats =
     (if ptype payload \<noteq> Renderer then (s, Threw (ThrownError (newError ''Expected renderer type'')))
      else
        (case ats of
           [] \<Rightarrow> (s, StillRunning)
         | a # rest \<Rightarrow>
             (case streamRenderer tb env opts outdir payload s (respond a payload) of
                Inl e \<Rightarrow> (s, Threw (ThrownError e))
              | Inr s1 \<Rightarrow>
                  (case resolved s1 of
                     None \<Rightarrow> (s1, StillRunning)
                   | Some Success \<Rightarrow> (s1, Returned)
                   | Some (Error e shouldRetry) \<Rightarrow>
                       if \<not> shouldRetry then (s1, Threw (ThrownString e))
                       else
                         streamRendererFunctionWithRetry tb env opts outdir
                           (retryPayload env payload)
                           (progressCall
                              (AddRetry (roundNumber env (attempt payload + 1)) (dateNow a) (chunk payload))
                              s1)
                           rest))))"

declare streamRendererFunctionWithRetry.simps [simp del]

section \<open>lambda: functions/renderer.ts\<close>

text \<open>
  The messages the worker hands to \<open>onStream\<close>, and the \<open>errorInfo\<close> object it builds.
  The type of the \<open>tmpDir\<close> diagnostic is left open.
\<close>

record 't errorInfo =
  eiName :: string
  eiMessage :: string
  eiStack :: string
  eiChunk :: "int option"
  eiFrame :: "int option"
  eiType :: string
  isFatal :: bool
  tmpDir :: 't
  eiAttempt :: real
  totalAttempts :: real
  willRetry :: bool

datatype 't workerMessage =
    LambdaInvoked real
  | FramesRendered int int
  | AudioChunkRendered bytes
  | VideoChunkRendered bytes
  | ChunkComplete int int
  | ErrorOccurred string bool "'t errorInfo"

text \<open>
  Everything the handler obtains from outside is collected in one record: the build's
  \<open>VERSION\<close>, \<open>NODE_ENV\<close>, the imported helpers, the temp directories handed out by
  \<open>RenderInternals.tmpDir\<close>, the codec decisions of \<open>RenderInternals\<close>, and the outcome
  of every operation that can fail (\<open>None\<close>: it succeeded). The rendering engine is given by
  the callbacks it makes, in order, and by how its promise settles. \<open>settleOrder\<close> is the
  order in which the promises given to \<open>Promise.all\<close> settle (positions in the array).
  \<open>roundNumberW\<close> is the rounding of an arithmetic result to a double.
\<close>

datatype audioEval = AudioYes | AudioNo | AudioMaybe

datatype renderCallback = OnStart | OnProgress int int

record 't workerWorld =
  VERSION :: string
  nodeEnv :: "string option"
  isFlakyError :: "jsError \<Rightarrow> bool"
  getTmpDirStateIfENoSp :: "string \<Rightarrow> 't"
  getBrowserInstance :: "jsError option"
  outputPath :: string
  outdir :: string
  defaultAudioCodec :: "string option"
  seamlessAudio :: bool
  seamlessVideo :: bool
  getFileExtensionFromCodec :: "string \<Rightarrow> string option \<Rightarrow> string"
  getExtensionFromAudioCodec :: "string \<Rightarrow> string"
  willRenderAudioEval :: audioEval
  isAudioCodec :: bool
  pathJoinW :: "string \<Rightarrow> string \<Rightarrow> string"
  resolvedPropsPromise :: "jsError option"
  inputPropsPromise :: "jsError option"
  allFramesLength :: int
  renderCallbacks :: "renderCallback list"
  internalRenderMedia :: "jsError option"
  readAudioFile :: "jsError + bytes"
  readVideoFile :: "jsError + bytes"
  startTime :: int
  endRendered :: int
  sendAudio :: "jsError option"
  sendVideo :: "jsError option"
  sendChunkComplete :: "jsError option"
  rmVideo :: "jsError option"
  rmAudio :: "jsError option"
  rmOutputPath :: "jsError option"
  settleOrder :: "nat list"
  roundNumberW :: "real \<Rightarrow> real"

text \<open>
  The handler's effects: the messages given to \<open>onStream\<close>, the paths given to
  \<open>fs.promises.rm\<close>, and whether the \<open>finally\<close> block has run.
\<close>

record 't workerState =
  emitted :: "'t workerMessage list"
  rmCalls :: "string list"
  cleanedUp :: bool

definition onStream :: "'t workerMessage \<Rightarrow> 't workerState \<Rightarrow> 't workerState" where
  "onStream m s = s\<lparr>emitted := emitted s @ [m]\<rparr>"

definition versionMismatch :: "string \<Rightarrow> string \<Rightarrow> jsError" where
  "versionMismatch v launched =
     newError (''The version of the function that was specified as '' @ [CHR 0x22]
       @ ''rendererFunctionName'' @ [CHR 0x22] @ '' is '' @ v
       @ '' but the version of the function that invoked the render is '' @ launched
       @ ''. Please make sure that the version of the function that is specified as '' @ [CHR 0x22]
       @ ''rendererFunctionName'' @ [CHR 0x22]
       @ '' is the same as the version of the function that is invoked.'')"

definition chunkName :: "lambdaPayload \<Rightarrow> string" where
  "chunkName params = ''localchunk-'' @ padStart 8 (CHR ''0'') (showChunk (chunk params))"

definition chunkCodec :: "'t workerWorld \<Rightarrow> lambdaPayload \<Rightarrow> string" where
  "chunkCodec w params =
     (if seamlessVideo w \<and> codec params = ''h264'' then ''h264-ts'' else codec params)"

definition audioCodec :: "'t workerWorld \<Rightarrow> string option" where
  "audioCodec w =
     (case defaultAudioCodec w of
        None \<Rightarrow> None
      | Some d \<Rightarrow> if seamlessAudio w then Some d else Some ''pcm-16'')"

definition audioExtension :: "'t workerWorld \<Rightarrow> string option" where
  "audioExtension w =
     (case audioCodec w of
        None \<Rightarrow> None
      | Some c \<Rightarrow> if c = [] then None else Some (getExtensionFromAudioCodec w c))"

definition videoOutputLocation :: "'t workerWorld \<Rightarrow> lambdaPayload \<Rightarrow> string" where
  "videoOutputLocation w params =
     pathJoinW w (outdir w)
       (chunkName params @ ''.'' @ getFileExtensionFromCodec w (chunkCodec w params) (audioCodec w))"

definition audioOutputLocation :: "'t workerWorld \<Rightarrow> lambdaPayload \<Rightarrow> string option" where
  "audioOutputLocation w params =
     (if willRenderAudioEval w = AudioNo then None
      else if isAudioCodec w then None
      else (case audioExtension w of
              None \<Rightarrow> None
            | Some ext \<Rightarrow>
                if ext = [] then None
                else Some (pathJoinW w (outdir w) (chunkName params @ ''.'' @ ext))))"

text \<open>\<open>x % n === 0\<close> on integers: false for \<open>n = 0\<close>, where the remainder is NaN.\<close>

definition remIsZero :: "int \<Rightarrow> int \<Rightarrow> bool" where
  "remIsZero x n = (n \<noteq> 0 \<and> n dvd x)"

definition onProgress :: "'t workerWorld \<Rightarrow> lambdaPayload \<Rightarrow> int \<Rightarrow> int \<Rightarrow> 't workerMessage list" where
  "onProgress w params renderedFrames encodedFrames =
     (let allFramesRendered = (allFramesLength w = renderedFrames);
          allFramesEncoded = (allFramesLength w = encodedFrames);
          frameReportPoint =
            ((remIsZero renderedFrames (progressEveryNthFrame params) \<or> allFramesRendered)
             \<and> \<not> allFramesEncoded);
          encodedFramesReportPoint =
            ((remIsZero encodedFrames (progressEveryNthFrame params) \<or> allFramesEncoded)
             \<and> allFramesRendered)
      in if frameReportPoint \<or> encodedFramesReportPoint
         then [FramesRendered renderedFrames encodedFrames] else [])"

fun renderCallbackMessages :: "'t workerWorld \<Rightarrow> lambdaPayload \<Rightarrow> renderCallback \<Rightarrow> 't workerMessage list" where
  "renderCallbackMessages w params OnStart = [LambdaInvoked (attempt params)]"
| "renderCallbackMessages w params (OnProgress r e) = onProgress w params r e"

text \<open>
  \<open>Promise.all\<close> rejects with the reason of the promise that rejects first; positions
  missing from the settle order come after it, in array order.
\<close>

definition promiseAll :: "nat list \<Rightarrow> jsError option list \<Rightarrow> jsError option" where
  "promiseAll order outcomes =
     (case filter (\<lambda>i. i < length outcomes \<and> outcomes ! i \<noteq> None) (order @ [0..<length outcomes]) of
        [] \<Rightarrow> None
      | i # rest \<Rightarrow> outcomes ! i)"

text \<open>
  Lines 291 to 399 of \<open>renderHandler\<close>: reading and sending the artifacts, then deleting
  them. The three sends and the deletions are all started before anything is awaited; the
  promise of the \<open>chunk-complete\<close> send swallows its failure.
\<close>

definition scratchArtifacts :: "'t workerWorld \<Rightarrow> lambdaPayload \<Rightarrow> string list" where
  "scratchArtifacts w params =
     [videoOutputLocation w params]
     @ (case audioOutputLocation w params of None \<Rightarrow> [] | Some a \<Rightarrow> [a])
     @ [outputPath w]"

definition sendAndDelete :: "'t workerWorld \<Rightarrow> lambdaPayload \<Rightarrow> 't workerState \<Rightarrow> 't workerState \<times> jsError option" where
  "sendAndDelete w params s =
     (case (case audioOutputLocation w params of
              None \<Rightarrow> Inr s
            | Some a \<Rightarrow>
                (case readAudioFile w of
                   Inl e \<Rightarrow> Inl e
                 | Inr b \<Rightarrow> Inr (onStream (AudioChunkRendered b) s))) of
        Inl e \<Rightarrow> (s, Some e)
      | Inr s1 \<Rightarrow>
          (case readVideoFile w of
             Inl e \<Rightarrow> (s1, Some e)
           | Inr videoPayload \<Rightarrow>
               (let s2 = onStream (if isAudioCodec w then AudioChunkRendered videoPayload
                                   else VideoChunkRendered videoPayload) s1;
                    s3 = onStream (ChunkComplete (endRendered w) (startTime w)) s2;
                    s4 = s3\<lparr>rmCalls := rmCalls s3 @ scratchArtifacts w params\<rparr>;
                    hasAudio = (audioOutputLocation w params \<noteq> None)
                in (s4,
                    promiseAll (settleOrder w)
                      ((if hasAudio then [sendAudio w] else [])
                       @ [sendVideo w, None, rmVideo w]
                       @ (if hasAudio then [rmAudio w] else [])
                       @ [rmOutputPath w])))))"

definition renderHandler :: "'t workerWorld \<Rightarrow> lambdaPayload \<Rightarrow> 't workerState \<Rightarrow> 't workerState \<times> jsError option" where
  "renderHandler w params s =
     (if ptype params \<noteq> Renderer then (s, Some (newError ''Params must be renderer''))
      else if launchVersion params \<noteq> VERSION w
        then (s, Some (versionMismatch (VERSION w) (launchVersion params)))
      else (case getBrowserInstance w of
        Some e \<Rightarrow> (s, Some e)
      | None \<Rightarrow>
          if chunk params = None then (s, Some (newError ''must pass chunk''))
          else if frameRange params = None then (s, Some (newError ''must pass framerange''))
          else if willRenderAudioEval w = AudioMaybe
            then (s, Some (newError ''Cannot determine whether to render audio or not''))
          else (case resolvedPropsPromise w of
            Some e \<Rightarrow> (s, Some e)
          | None \<Rightarrow>
              (case inputPropsPromise w of
                 Some e \<Rightarrow> (s, Some e)
               | None \<Rightarrow>
                   (let s1 = fold onStream (concat (map (renderCallbackMessages w params) (renderCallbacks w))) s
                    in case internalRenderMedia w of
                         Some e \<Rightarrow> (s1, Some e)
                       | None \<Rightarrow> sendAndDelete w params s1)))))"

text \<open>The exported \<open>rendererHandler\<close>, with its \<open>try\<close>, \<open>catch\<close> and \<open>finally\<close>.\<close>

definition shouldRetryOf :: "'t workerWorld \<Rightarrow> lambdaPayload \<Rightarrow> jsError \<Rightarrow> bool" where
  "shouldRetryOf w params err =
     (let isRetryableError = isFlakyError w err;
          shouldNotRetry = (name err = ''CancelledError'')
      in isRetryableError \<and> retriesLeft params > 0 \<and> \<not> shouldNotRetry)"

definition errorOccurred :: "'t workerWorld \<Rightarrow> lambdaPayload \<Rightarrow> jsError \<Rightarrow> 't workerMessage" where
  "errorOccurred w params err =
     (let shouldRetry = shouldRetryOf w params err in
      ErrorOccurred (stack err) shouldRetry
        \<lparr>eiName = name err, eiMessage = message err, eiStack = stack err,
         eiChunk = chunk params, eiFrame = None, eiType = ''renderer'',
         isFatal = (\<not> shouldRetry), tmpDir = getTmpDirStateIfENoSp w (stack err),
         eiAttempt = attempt params,
         totalAttempts = roundNumberW w (retriesLeft params + attempt params),
         willRetry = shouldRetry\<rparr>)"

datatype handlerResult = HandlerSuccess | HandlerThrew jsError

definition rendererHandler :: "'t workerWorld \<Rightarrow> lambdaPayload \<Rightarrow> 't workerState \<Rightarrow> 't workerState \<times> handlerResult" where
  "rendererHandler w params s =
     (if ptype params \<noteq> Renderer then (s, HandlerThrew (newError ''Params must be renderer''))
      else (case renderHandler w params s of
        (s1, None) \<Rightarrow> (s1\<lparr>cleanedUp := True\<rparr>, HandlerSuccess)
      | (s1, Some err) \<Rightarrow>
          if nodeEnv w = Some ''test'' then (s1\<lparr>cleanedUp := True\<rparr>, HandlerThrew err)
          else ((onStream (errorOccurred w params err) s1)\<lparr>cleanedUp := True\<rparr>, HandlerThrew err)))"

text \<open>
  Two notions for stating what the handler does: a message is the \<open>error-occurred\<close>
  message; and the handler got as far as the deletions, that is, nothing on the way failed
  up to and including the reading of the rendered files.
\<close>

fun isErrorOccurred :: "'t workerMessage \<Rightarrow> bool" where
  "isErrorOccurred (ErrorOccurred e r i) = True"
| "isErrorOccurred (LambdaInvoked a) = False"
| "isErrorOccurred (FramesRendered r e) = False"
| "isErrorOccurred (AudioChunkRendered b) = False"
| "isErrorOccurred (VideoChunkRendered b) = False"
| "isErrorOccurred (ChunkComplete r s) = False"

definition artifactsRead :: "'t workerWorld \<Rightarrow> lambdaPayload \<Rightarrow> bool" where
  "artifactsRead w params =
     (ptype params = Renderer \<and> launchVersion params = VERSION w \<and> getBrowserInstance w = None
      \<and> chunk params \<noteq> None \<and> frameRange params \<noteq> None \<and> willRenderAudioEval w \<noteq> AudioMaybe
      \<and> resolvedPropsPromise w = None \<and> inputPropsPromise w = None
      \<and> internalRenderMedia w = None
      \<and> (audioOutputLocation w params = None \<or> \<not> isl (readAudioFile w))
      \<and> \<not> isl (readVideoFile w))"

section \<open>Orchestrator and worker together\<close>

text \<open>
  A frame answers the payload \<open>p\<close> as the worker of \<open>renderer.ts\<close> does when, if it is an
  \<open>error-occurred\<close> message, its \<open>shouldRetry\<close> is the flag that \<open>rendererHandler\<close>
  computes for \<open>p\<close> on some caught error.
\<close>

definition fromRendererHandler ::
  "('id, 'j) streamingTables \<Rightarrow> ('j, 'ei) rendererEnv \<Rightarrow> lambdaPayload \<Rightarrow> 'id frame \<Rightarrow> bool" where
  "fromRendererHandler tb env p fr =
     (case fr of (status, i, data) \<Rightarrow>
        messageTypeIdToMessageType tb i = ''error-occurred'' \<longrightarrow>
        (\<forall>j. innerPayload tb ''error-occurred'' data = Inr j \<longrightarrow>
           (\<exists>(w :: unit workerWorld) err. payloadShouldRetry env j = shouldRetryOf w p err)))"

text \<open>
  The claim about successive chunk descriptions, in its own words: from one to the next the
  attempt count grows by one, retries-remaining shrinks by one and is not negative, and
  nothing else changes (the next one is a new value built from the previous one). It is a
  claim about counts: \<open>safeCounts\<close> says that both numbers of a payload are integers, and
  small enough for the attempt count to stay a safe integer through all the retries that the
  retries left allow.
\<close>

fun retryChain :: "lambdaPayload list \<Rightarrow> bool" where
  "retryChain (p # q # ps) =
     (q = p\<lparr>attempt := attempt p + 1, retriesLeft := retriesLeft p - 1\<rparr>
      \<and> attempt p < attempt q \<and> retriesLeft q < retriesLeft p \<and> 0 \<le> retriesLeft q
      \<and> retryChain (q # ps))"
| "retryChain [p] = True"
| "retryChain [] = True"

definition safeCounts :: "lambdaPayload \<Rightarrow> bool" where
  "safeCounts p =
     (attempt p \<in> \<int> \<and> retriesLeft p \<in> \<int> \<and> \<bar>attempt p\<bar> + \<bar>retriesLeft p\<bar> \<le> 2 ^ 53 - 1)"

section \<open>A concrete setting\<close>

text \<open>
  Concrete tables, payloads and remote answers, for evaluating the functions above. Message
  type ids are the type names themselves. Structured payloads are represented by the fields
  that are read from them, and \<open>exampleParse\<close> agrees with \<open>JSON.parse\<close> on the texts used
  here: three objects, and an object cut off in the middle, which is rejected. Octets are
  decoded as the characters they stand for (ASCII). All numbers here are small integers, which
  the rounding to a double leaves as they are.
\<close>

datatype exampleJson = JsonFrames int int | JsonError string bool

definition framesText :: string where
  \<open>framesText = ''{"rendered":50,"encoded":0}''\<close>

definition truncatedText :: string where
  \<open>truncatedText = ''{"rendered":50''\<close>

definition retryText :: string where
  \<open>retryText = ''{"error":"boom","shouldRetry":true,"errorInfo":{}}''\<close>

definition fatalText :: string where
  \<open>fatalText = ''{"error":"boom","shouldRetry":false,"errorInfo":{}}''\<close>

definition exampleParse :: "string \<Rightarrow> exampleJson option" where
  "exampleParse t =
     (if t = framesText then Some (JsonFrames 50 0)
      else if t = retryText then Some (JsonError ''boom'' True)
      else if t = fatalText then Some (JsonError ''boom'' False)
      else None)"

definition exampleTables :: "(string, exampleJson) streamingTables" where
  "exampleTables =
     \<lparr>messageTypeIdToMessageType = (\<lambda>i. i),
      formatMap = (\<lambda>t. if t = ''video-chunk-rendered'' \<or> t = ''audio-chunk-rendered''
                        then FormatBinary else FormatJson),
      textDecode = (\<lambda>b. b),
      jsonParse = exampleParse\<rparr>"

definition exampleEnv :: "(exampleJson, unit) rendererEnv" where
  "exampleEnv =
     \<lparr>pathJoin = (\<lambda>a b. a @ ''/'' @ b),
      writeFileSync = (\<lambda>f p. None),
      payloadEncoded = (\<lambda>p. case p of Structured (JsonFrames r e) \<Rightarrow> e | _ \<Rightarrow> 0),
      payloadRendered = (\<lambda>p. case p of Structured (JsonFrames r e) \<Rightarrow> r | _ \<Rightarrow> 0),
      payloadStart = (\<lambda>p. 0),
      payloadError = (\<lambda>p. case p of Structured (JsonError e r) \<Rightarrow> e | _ \<Rightarrow> []),
      payloadShouldRetry = (\<lambda>p. case p of Structured (JsonError e r) \<Rightarrow> r | _ \<Rightarrow> False),
      payloadErrorInfo = (\<lambda>p. ()),
      roundNumber = (\<lambda>x. x)\<rparr>"

definition exampleOptions :: invokeOptions where
  "exampleOptions = \<lparr>functionName = ''remotion-render'', region = ''eu-central-1''\<rparr>"

definition examplePayload :: lambdaPayload where
  "examplePayload =
     \<lparr>ptype = Renderer, chunk = Some 3, attempt = 1, retriesLeft = 1, launchVersion = ''4.0.0'',
      frameRange = Some (0, 99), codec = ''h264'', progressEveryNthFrame = 50, logLevel = ''info''\<rparr>"

definition emptyState :: "(exampleJson, unit) rendererState" where
  "emptyState = \<lparr>progressCalls = [], written = [], files = [], resolved = None, requests = []\<rparr>"

text \<open>An invocation that is acknowledged after 120 ms and streams the given events.\<close>

definition answering :: "string streamEvent list \<Rightarrow> string invocation" where
  "answering evs =
     \<lparr>resProm = ResolvesAt 120 \<lparr>requestId = ''req'', eventStream = evs\<rparr>, timerFirstAtTie = False\<rparr>"

definition exampleHandler :: "(exampleJson, (exampleJson, unit) rendererState) onMessage" where
  "exampleHandler = receivedStreamingPayload exampleEnv examplePayload ''/tmp/out''"

text \<open>
  A remote side that fails every attempt with an error the worker classifies as flaky: it
  answers with \<open>shouldRetry\<close> set exactly when the payload has retries left. And one
  whose stream ends without any error message.
\<close>

definition failingAnswer :: "lambdaPayload \<Rightarrow> string invocation list" where
  "failingAnswer p =
     [answering [PayloadChunk [(StatusSuccess, ''error-occurred'',
                                if 0 < retriesLeft p then retryText else fatalText)],
                 InvokeComplete None []]]"




definition exitingAnswer :: "lambdaPayload \<Rightarrow> string invocation list" where
  "exitingAnswer p =
     [answering [PayloadChunk [(StatusSuccess, ''frames-rendered'', framesText)],
                 InvokeComplete (Some ''Unhandled'') ''Runtime exited'']]"

definition remoteExit :: jsError where
  "remoteExit = invokeCompleteError exampleOptions ''req'' ''Unhandled'' ''Runtime exited''"

definition retryMessage :: "exampleJson streamingMessage" where
  "retryMessage =
     \<lparr>successType = StatusSuccess, msgType = ''error-occurred'',
      msgPayload = Structured (JsonError ''boom'' True)\<rparr>"

text \<open>
  A worker whose rendering succeeds, with a separate audio file, and whose send of the video
  chunk fails; the same worker with the browser crashing during rendering; and that one
  running under \<open>NODE_ENV=test\<close>.
\<close>

definition browserCrash :: jsError where
  "browserCrash = newError ''Target closed''"

definition exampleWorld :: "unit workerWorld" where
  "exampleWorld =
     \<lparr>VERSION = ''4.0.0'', nodeEnv = Some ''production'',
      isFlakyError = (\<lambda>e. strIncludes (message e) ''Target closed''),
      getTmpDirStateIfENoSp = (\<lambda>st. ()),
      getBrowserInstance = None,
      outputPath = ''/tmp/remotion-render-1'', outdir = ''/tmp/remotion-chunks-1'',
      defaultAudioCodec = Some ''aac'', seamlessAudio = True, seamlessVideo = True,
      getFileExtensionFromCodec = (\<lambda>c a. ''ts''), getExtensionFromAudioCodec = (\<lambda>c. ''aac''),
      willRenderAudioEval = AudioYes, isAudioCodec = False,
      pathJoinW = (\<lambda>a b. a @ ''/'' @ b),
      resolvedPropsPromise = None, inputPropsPromise = None,
      allFramesLength = 100,
      renderCallbacks = [OnStart, OnProgress 50 0, OnProgress 100 100],
      internalRenderMedia = None,
      readAudioFile = Inr ''audio'', readVideoFile = Inr ''video'',
      startTime = 1000, endRendered = 5000,
      sendAudio = None, sendVideo = Some (newError ''write EPIPE''), sendChunkComplete = None,
      rmVideo = None, rmAudio = None, rmOutputPath = None,
      settleOrder = [0, 1, 2, 3, 4, 5],
      roundNumberW = (\<lambda>x. x)\<rparr>"

definition crashingWorld :: "unit workerWorld" where
  "crashingWorld = exampleWorld\<lparr>renderCallbacks := [OnStart], internalRenderMedia := Some browserCrash\<rparr>"

definition testWorld :: "unit workerWorld" where
  "testWorld = crashingWorld\<lparr>nodeEnv := Some ''test''\<rparr>"

definition idleWorker :: "unit workerState" where
  "idleWorker = \<lparr>emitted = [], rmCalls = [], cleanedUp = False\<rparr>"

section \<open>Properties of use-media-buffering.ts\<close>

text \<open>After a \<open>waiting\<close> event the cleanup function has something to call.\<close>

lemma cleanup_after_waiting:
  "mountEventsUnmount True True [Waiting]
     = Some (Inr \<lparr>waitingListeners = [OnWaiting], canplayListeners = [], cleanupVar = Some (RemoveCanPlay 0),
                  blocking = [0], nextHandle = 1\<rparr>)"
  by (simp add: mountEventsUnmount_def useMediaBufferingEffect_def effectCleanup_def
      initialEffectState_def onWaiting_def Let_def)

text \<open>
  C10. The claim: with a non-null element and \<open>shouldBuffer = true\<close>, the cleanup function
  returned by the effect can be invoked without crashing, also when no \<open>waiting\<close> event was
  dispatched. The code at that input: the binding \<open>cleanup\<close> was never assigned, and the
  call raises a TypeError.
\<close>

theorem C10_cleanup_without_waiting_raises:
  "mountEventsUnmount True True [] = Some (Inl (notAFunction ''cleanup''))"
  by (simp add: mountEventsUnmount_def useMediaBufferingEffect_def effectCleanup_def
      initialEffectState_def)

section \<open>Properties of call-lambda.ts\<close>

lemma strIncludes_sublist: "strIncludes h n = sublist n h"
  by (induction h) (auto simp: sublist_Cons_right)

lemma LAMBDA_STREAM_STALL_text: "LAMBDA_STREAM_STALL = ''AWS did not invoke Lambda in 60000ms''"
  by (simp add: LAMBDA_STREAM_STALL_def STREAM_STALL_TIMEOUT_def digitChar_def showNat.simps)

text \<open>
  C2. The deadline is 60000 ms. An invocation acknowledged before the deadline yields the
  remote's response and the timer is cleared; one that settles only after the deadline, or
  never, fails with the stall error, the timer having fired.
\<close>

theorem C2_stall_guard:
  "STREAM_STALL_TIMEOUT = 60000 \<and>
   (t < 60000 \<longrightarrow>
      invokeStreamOrTimeout tie (ResolvesAt t res) = (Inr res, TimerCleared)) \<and>
   (60000 < t \<longrightarrow>
      invokeStreamOrTimeout tie (ResolvesAt t res) = (Inl (newError LAMBDA_STREAM_STALL), TimerFired)) \<and>
   (60000 < t \<longrightarrow>
      invokeStreamOrTimeout tie (RejectsAt t e) = (Inl (newError LAMBDA_STREAM_STALL), TimerFired)) \<and>
   invokeStreamOrTimeout tie NeverSettles = (Inl (newError LAMBDA_STREAM_STALL), TimerFired)"
  by (simp add: invokeStreamOrTimeout_def STREAM_STALL_TIMEOUT_def)

theorem C2_stall_guard_witness:
  "(120::nat) < 60000 \<and>
   invokeStreamOrTimeout False (ResolvesAt 120 ''response'') = (Inr ''response'', TimerCleared) \<and>
   (60000::nat) < 60001 \<and>
   invokeStreamOrTimeout False (ResolvesAt 60001 ''response'')
     = (Inl (newError LAMBDA_STREAM_STALL), TimerFired)"
  using C2_stall_guard [of 120 False "''response''"] C2_stall_guard [of 60001 False "''response''"]
  by auto

text \<open>
  C4. Decoding a frame's payload raises the parse error, which carries the message type and
  the offending text, exactly when the type's format is json and the text does not parse;
  no other error is raised there; a payload of a binary type is passed on as it is. In the
  callback, a decoding error is raised without the handler being called, and otherwise the
  handler receives the decoded payload.
\<close>

theorem C4_malformed_payload_iff:
  "(innerPayload tb mt data = Inl (newError (''Invalid JSON ('' @ mt @ ''): '' @ textDecode tb data))
      \<longleftrightarrow> formatMap tb mt = FormatJson \<and> jsonParse tb (textDecode tb data) = None)
   \<and> (\<forall>e. innerPayload tb mt data = Inl e
          \<longrightarrow> e = newError (''Invalid JSON ('' @ mt @ ''): '' @ textDecode tb data))
   \<and> (formatMap tb mt = FormatBinary \<longrightarrow> innerPayload tb mt data = Inr (RawBytes data))
   \<and> (messageTypeIdToMessageType tb i = mt \<longrightarrow>
        streamerCallback tb h st (status, i, data) =
          (case innerPayload tb mt data of
             Inl e \<Rightarrow> (st, Some e)
           | Inr p \<Rightarrow> h st \<lparr>successType = status, msgType = mt, msgPayload = p\<rparr>))"
  by (auto simp: innerPayload_def parseJsonOrThrowSource_def streamerCallback_def Let_def
      split: option.splits sum.splits)

lemma example_formats:
  "formatMap exampleTables ''frames-rendered'' = FormatJson"
  "formatMap exampleTables ''error-occurred'' = FormatJson"
  "formatMap exampleTables ''video-chunk-rendered'' = FormatBinary"
  by (simp_all add: exampleTables_def)

lemma example_parse:
  "jsonParse exampleTables (textDecode exampleTables truncatedText) = None"
  "jsonParse exampleTables (textDecode exampleTables framesText) = Some (JsonFrames 50 0)"
  "jsonParse exampleTables (textDecode exampleTables retryText) = Some (JsonError ''boom'' True)"
  "jsonParse exampleTables (textDecode exampleTables fatalText) = Some (JsonError ''boom'' False)"
  by (simp_all add: exampleTables_def exampleParse_def truncatedText_def framesText_def retryText_def
      fatalText_def)

theorem C4_malformed_payload_iff_witness:
  "formatMap exampleTables ''frames-rendered'' = FormatJson
   \<and> jsonParse exampleTables (textDecode exampleTables truncatedText) = None
   \<and> innerPayload exampleTables ''frames-rendered'' truncatedText
       = Inl (newError (''Invalid JSON (frames-rendered): '' @ truncatedText))
   \<and> formatMap exampleTables ''video-chunk-rendered'' = FormatBinary
   \<and> innerPayload exampleTables ''video-chunk-rendered'' ''media'' = Inr (RawBytes ''media'')
   \<and> messageTypeIdToMessageType exampleTables ''frames-rendered'' = ''frames-rendered''
   \<and> streamerCallback exampleTables exampleHandler emptyState
         (StatusSuccess, ''frames-rendered'', truncatedText)
       = (emptyState, Some (newError (''Invalid JSON (frames-rendered): '' @ truncatedText)))"
proof -
  note json = C4_malformed_payload_iff [where tb = exampleTables and mt = "''frames-rendered''"
      and data = truncatedText and i = "''frames-rendered''" and h = exampleHandler
      and st = emptyState and status = StatusSuccess]
  note binary = C4_malformed_payload_iff [where tb = exampleTables and mt = "''video-chunk-rendered''"
      and data = "''media''" and i = "''video-chunk-rendered''" and h = exampleHandler
      and st = emptyState and status = StatusSuccess]
  have t: "textDecode exampleTables truncatedText = truncatedText" by (simp add: exampleTables_def)
  have ty: "messageTypeIdToMessageType exampleTables ''frames-rendered'' = ''frames-rendered''"
    by (simp add: exampleTables_def)
  have a: "innerPayload exampleTables ''frames-rendered'' truncatedText
      = Inl (newError (''Invalid JSON ('' @ ''frames-rendered'' @ ''): '' @ textDecode exampleTables truncatedText))"
    using json [THEN conjunct1] example_formats(1) example_parse(1) by blast
  have b: "innerPayload exampleTables ''video-chunk-rendered'' ''media'' = Inr (RawBytes ''media'')"
    using binary [THEN conjunct2, THEN conjunct2, THEN conjunct1] example_formats(3) by blast
  from a have a': "innerPayload exampleTables ''frames-rendered'' truncatedText
       = Inl (newError (''Invalid JSON (frames-rendered): '' @ truncatedText))"
    by (simp only: t append.simps)
  have c: "streamerCallback exampleTables exampleHandler emptyState
         (StatusSuccess, ''frames-rendered'', truncatedText)
       = (case innerPayload exampleTables ''frames-rendered'' truncatedText of
            Inl e \<Rightarrow> (emptyState, Some e)
          | Inr p \<Rightarrow> exampleHandler emptyState
              \<lparr>successType = StatusSuccess, msgType = ''frames-rendered'', msgPayload = p\<rparr>)"
    using json [THEN conjunct2, THEN conjunct2, THEN conjunct2] ty by blast
  have c': "streamerCallback exampleTables exampleHandler emptyState
         (StatusSuccess, ''frames-rendered'', truncatedText)
       = (emptyState, Some (newError (''Invalid JSON (frames-rendered): '' @ truncatedText)))"
    unfolding c a' by simp
  show ?thesis using a' b c' ty example_formats(1,3) example_parse(1) by blast
qed

text \<open>A decoding failure leaves the handler uncalled; otherwise the callback is the handler.\<close>

lemma callback_cases:
"(\<exists>e. streamerCallback tb h st fr = (st, Some e)) \<or>
   (\<exists>m. msgType m = messageTypeIdToMessageType tb (fst (snd fr)) \<and> streamerCallback tb h st fr = h st m)"
proof (cases fr)
  case (fields status i data)
  show ?thesis
  proof (cases "innerPayload tb (messageTypeIdToMessageType tb i) data")
    case (Inl e)
    with fields show ?thesis by (simp add: streamerCallback_def)
  next
    case (Inr p)
    let ?m = "\<lparr>successType = status, msgType = messageTypeIdToMessageType tb i, msgPayload = p\<rparr>"
    have "streamerCallback tb h st fr = h st ?m" using fields Inr by (simp add: streamerCallback_def)
    moreover have "msgType ?m = messageTypeIdToMessageType tb (fst (snd fr))" using fields by simp
    ultimately show ?thesis by blast
  qed
qed

lemma callback_keeps:
  assumes "\<And>m. P (fst (h st m))" and "P st"
  shows "P (fst (streamerCallback tb h st fr))"
  using callback_cases[of tb h st fr] assms by auto

text \<open>What the handler keeps invariant on the frames of the given invocations, the client keeps.\<close>

lemma onData_invariant:
  assumes "\<And>st fr. fr \<in> set frs \<Longrightarrow> P st \<Longrightarrow> P (fst (cb st fr))" and "P st"
  shows "P (fst (onData cb st frs))"
  using assms
proof (induction frs arbitrary: st)
  case Nil
  then show ?case by simp
next
  case (Cons fr frs)
  have step: "P (fst (cb st fr))" using Cons.prems by simp
  show ?case
  proof (cases "cb st fr")
    case (Pair st' r)
    with step have p': "P st'" by simp
    show ?thesis
    proof (cases r)
      case None
      with Pair p' Cons show ?thesis by simp
    next
      case (Some e)
      with Pair p' show ?thesis by simp
    qed
  qed
qed

lemma forAwaitEvents_invariant:
  assumes "\<And>st fr. fr \<in> set (concat (map eventFrames evs)) \<Longrightarrow> P st \<Longrightarrow> P (fst (cb st fr))" and "P st"
  shows "P (fst (forAwaitEvents opts rid cb st evs))"
  using assms
proof (induction opts rid cb st evs rule: forAwaitEvents.induct)
  case (1 opts reqId cb st)
  then show ?case by simp
next
  case (2 opts reqId cb st frs evs)
  have a: "P (fst (onData cb st frs))"
    by (rule onData_invariant) (use 2 in auto)
  show ?case
  proof (cases "onData cb st frs")
    case (Pair st' r)
    with a have p': "P st'" by simp
    show ?thesis
    proof (cases r)
      case None
      have "P (fst (forAwaitEvents opts reqId cb st' evs))"
        by (rule 2(1)[OF Pair[symmetric] None]) (use 2 p' in auto)
      with Pair None show ?thesis by simp
    next
      case (Some e)
      with Pair p' show ?thesis by simp
    qed
  qed
next
  case (3 opts reqId cb st errorCode errorDetails evs)
  then show ?case by (auto split: option.splits)
next
  case (4 opts reqId cb st e evs)
  then show ?case by simp
qed

lemma withoutRetry_invariant:
  assumes "\<And>st fr. fr \<in> set (framesOf ivk) \<Longrightarrow> P st \<Longrightarrow> P (fst (streamerCallback tb h st fr))" and "P st"
  shows "P (fst (callLambdaWithStreamingWithoutRetry tb opts h st ivk))"
proof (cases "fst (invokeStreamOrTimeout (timerFirstAtTie ivk) (resProm ivk))")
  case (Inl e)
  then show ?thesis using assms(2) by (simp add: callLambdaWithStreamingWithoutRetry_def)
next
  case (Inr res)
  then obtain t where r: "resProm ivk = ResolvesAt t res"
    by (auto simp: invokeStreamOrTimeout_def Let_def split: settles.splits if_splits)
  have "P (fst (forAwaitEvents opts (requestId res) (streamerCallback tb h) st (eventStream res)))"
    by (rule forAwaitEvents_invariant) (use assms r in \<open>auto simp: framesOf_def\<close>)
  with Inr show ?thesis by (simp add: callLambdaWithStreamingWithoutRetry_def)
qed

lemma callLambdaWithStreaming_invariant:
  assumes "\<And>st fr. fr \<in> (\<Union>ivk \<in> set ivks. set (framesOf ivk)) \<Longrightarrow> P st \<Longrightarrow> P (fst (streamerCallback tb h st fr))"
    and "P st"
  shows "P (fst (fst (callLambdaWithStreaming tb opts h rr st ivks)))"
  using assms
proof (induction ivks arbitrary: st rr)
  case Nil
  then show ?case by simp
next
  case (Cons ivk ivks)
  have a: "P (fst (callLambdaWithStreamingWithoutRetry tb opts h st ivk))"
    by (rule withoutRetry_invariant) (use Cons.prems in auto)
  obtain st' r where w: "callLambdaWithStreamingWithoutRetry tb opts h st ivk = (st', r)"
    by (cases "callLambdaWithStreamingWithoutRetry tb opts h st ivk")
  with a have p': "P st'" by simp
  have rec: "P (fst (fst (callLambdaWithStreaming tb opts h rr' st' ivks)))" for rr'
    by (rule Cons.IH) (use Cons.prems p' in auto)
  show ?case using w p' rec[of "rr - 1"]
    by (auto split: option.splits prod.splits)
qed

lemma callLambdaWithStreaming_settles:
  "0 \<le> rr \<Longrightarrow> nat rr < length ivks \<Longrightarrow>
     snd (fst (callLambdaWithStreaming tb opts h rr st ivks)) \<noteq> Pending
     \<and> snd (callLambdaWithStreaming tb opts h rr st ivks) \<le> nat rr + 1"
proof (induction ivks arbitrary: st rr)
  case Nil
  then show ?case by simp
next
  case (Cons ivk ivks)
  obtain st' r where w: "callLambdaWithStreamingWithoutRetry tb opts h st ivk = (st', r)"
    by (cases "callLambdaWithStreamingWithoutRetry tb opts h st ivk")
  show ?case
  proof (cases "r = None \<or> rr = 0 \<or> \<not> retryTrigger (the r)")
    case True
    with w show ?thesis by (auto split: option.splits)
  next
    case False
    then have "0 \<le> rr - 1" "nat (rr - 1) < length ivks" using Cons.prems by auto
    from Cons.IH[OF this, of st'] False w Cons.prems show ?thesis
      by (auto split: option.splits prod.splits)
  qed
qed

text \<open>The retry decision after a failed attempt, as the source takes it.\<close>

lemma callLambdaWithStreaming_after_failure:
  assumes "callLambdaWithStreamingWithoutRetry tb opts h st ivk = (st', Some err)"
  shows "callLambdaWithStreaming tb opts h rr st (ivk # ivks) =
           (if rr \<noteq> 0 \<and> retryTrigger err
            then (fst (callLambdaWithStreaming tb opts h (rr - 1) st' ivks),
                  Suc (snd (callLambdaWithStreaming tb opts h (rr - 1) st' ivks)))
            else ((st', Rejected err), 1))"
  using assms by (simp split: prod.splits)

text \<open>
  The parts of the retry rule that the code does follow: a stall matches the trigger and is
  retried until the counter is used up, after which the stall error is propagated.
\<close>

lemma retryTrigger_iff:
  "retryTrigger err \<longleftrightarrow>
     sublist INVALID_JSON_MESSAGE (message err) \<or> sublist LAMBDA_STREAM_STALL (message err)
     \<or> sublist ''aborted'' (message err)"
  by (simp add: retryTrigger_def strIncludes_sublist)

lemma stall_error_triggers_retry: "retryTrigger (newError LAMBDA_STREAM_STALL)"
  by (simp add: retryTrigger_iff newError_def)

lemma stall_is_retried_until_exhausted:
  "callLambdaWithStreaming tb opts h 2 st
     [\<lparr>resProm = NeverSettles, timerFirstAtTie = b1\<rparr>, \<lparr>resProm = NeverSettles, timerFirstAtTie = b2\<rparr>,
      \<lparr>resProm = NeverSettles, timerFirstAtTie = b3\<rparr>, \<lparr>resProm = NeverSettles, timerFirstAtTie = b4\<rparr>]
   = ((st, Rejected (newError LAMBDA_STREAM_STALL)), 3)"
  by (simp add: callLambdaWithStreamingWithoutRetry_def invokeStreamOrTimeout_def
      stall_error_triggers_retry)

text \<open>
  C1. The claim: a failed attempt is re-issued if and only if its error is a parse failure
  of a structured payload, a stall or an aborted connection, and retries remain. The code at
  a parse failure: the frame \<open>frames-rendered\<close> arrives cut off, the decoder raises
  \<open>Invalid JSON (frames-rendered): ...\<close>, the trigger looks for
  \<open>Cannot parse Lambda response as JSON\<close>, and with two retries remaining the error is
  propagated after a single invocation; the second invocation, which would have succeeded, is
  never issued.
\<close>

theorem C1_parse_failure_is_not_retried:
  "callLambdaWithStreaming exampleTables exampleOptions exampleHandler 2 emptyState
     [answering [PayloadChunk [(StatusSuccess, ''frames-rendered'', truncatedText)], InvokeComplete None []],
      answering [PayloadChunk [(StatusSuccess, ''frames-rendered'', framesText)], InvokeComplete None []]]
   = ((emptyState, Rejected (newError (''Invalid JSON (frames-rendered): '' @ truncatedText))), 1)"
  by (simp add: answering_def callLambdaWithStreamingWithoutRetry_def invokeStreamOrTimeout_def
      STREAM_STALL_TIMEOUT_def streamerCallback_def innerPayload_def parseJsonOrThrowSource_def
      exampleTables_def exampleParse_def truncatedText_def framesText_def retryText_def fatalText_def
      retryTrigger_def newError_def INVALID_JSON_MESSAGE_def LAMBDA_STREAM_STALL_def showNat.simps
      digitChar_def)

section \<open>Properties of stream-renderer.ts\<close>

lemma handler_keeps_resolution:
  "resolved s = Some r \<Longrightarrow> resolved (fst (receivedStreamingPayload env payload dir s m)) = Some r"
  by (simp add: receivedStreamingPayload_def resolve_def progressCall_def Let_def split: option.splits)

lemma handler_keeps_requests:
  "requests (fst (receivedStreamingPayload env payload dir s m)) = requests s"
  by (simp add: receivedStreamingPayload_def resolve_def progressCall_def Let_def split: option.splits)

lemma handler_other_message:
  "msgType m \<noteq> ''error-occurred'' \<Longrightarrow>
     resolved (fst (receivedStreamingPayload env payload dir s m)) = resolved s"
  by (simp add: receivedStreamingPayload_def progressCall_def Let_def split: option.splits)

lemma handler_error_occurred:
  "msgType m = ''error-occurred'' \<Longrightarrow>
     receivedStreamingPayload env payload dir s m =
       (resolve (Error (payloadError env (msgPayload m)) (payloadShouldRetry env (msgPayload m)))
          (progressCall (SetFrames (chunk payload) 0 0)
             (progressCall (AddErrorWithoutUpload (payloadErrorInfo env (msgPayload m))) s)), None)"
  by (simp add: receivedStreamingPayload_def)

lemma client_keeps_resolution:
  fixes tb :: "('id, 'j) streamingTables" and env :: "('j, 'ei) rendererEnv"
  assumes "resolved s = Some r"
  shows "resolved (fst (fst (callLambdaWithStreaming tb opts (receivedStreamingPayload env payload dir) rr s ivks))) = Some r"
proof (rule callLambdaWithStreaming_invariant[where P = "\<lambda>st. resolved st = Some r"])
  fix st :: "('j, 'ei) rendererState" and fr :: "'id frame"
  assume "resolved st = Some r"
  then show "resolved (fst (streamerCallback tb (receivedStreamingPayload env payload dir) st fr)) = Some r"
    by (intro callback_keeps[where P = "\<lambda>st. resolved st = Some r"] handler_keeps_resolution)
qed (rule assms)

lemma client_keeps_requests:
  fixes tb :: "('id, 'j) streamingTables" and env :: "('j, 'ei) rendererEnv"
  shows "requests (fst (fst (callLambdaWithStreaming tb opts (receivedStreamingPayload env payload dir) rr s ivks))) = requests s"
proof (rule callLambdaWithStreaming_invariant[where P = "\<lambda>st. requests st = requests s"])
  fix st :: "('j, 'ei) rendererState" and fr :: "'id frame"
  assume a: "requests st = requests s"
  show "requests (fst (streamerCallback tb (receivedStreamingPayload env payload dir) st fr)) = requests s"
    by (rule callback_keeps[where P = "\<lambda>st. requests st = requests s"])
       (simp_all add: handler_keeps_requests a)
qed simp

text \<open>
  C6, as the code has it. An \<open>error-occurred\<close> message received while the attempt is
  unresolved resolves it as a failure with that message's \<open>shouldRetry\<close>, without an
  exception, and nothing that the client delivers afterwards changes that resolution. (That
  later messages are not processed is not part of it: see the evaluation that follows.)
\<close>

theorem C6_error_occurred_resolves_attempt:
  assumes "msgType m = ''error-occurred''" and "resolved s = None"
  shows "snd (receivedStreamingPayload env payload dir s m) = None
     \<and> resolved (fst (receivedStreamingPayload env payload dir s m))
         = Some (Error (payloadError env (msgPayload m)) (payloadShouldRetry env (msgPayload m)))
     \<and> resolved (fst (fst (callLambdaWithStreaming tb opts (receivedStreamingPayload env payload dir) rr
                            (fst (receivedStreamingPayload env payload dir s m)) ivks)))
         = Some (Error (payloadError env (msgPayload m)) (payloadShouldRetry env (msgPayload m)))"
proof -
  have r: "resolved (fst (receivedStreamingPayload env payload dir s m))
         = Some (Error (payloadError env (msgPayload m)) (payloadShouldRetry env (msgPayload m)))"
    using assms by (simp add: handler_error_occurred resolve_def progressCall_def)
  show ?thesis
    using assms(1) r client_keeps_resolution[OF r] by (simp add: handler_error_occurred)
qed

text \<open>Evaluating the concrete setting.\<close>

lemma replicate_numeral_unfold: "replicate (numeral k) x = x # replicate (pred_numeral k) x"
  by (simp add: numeral_eq_Suc)

lemmas example_defs = replicate_numeral_unfold
  answering_def callLambdaWithStreamingWithoutRetry_def invokeStreamOrTimeout_def
  STREAM_STALL_TIMEOUT_def streamerCallback_def innerPayload_def parseJsonOrThrowSource_def
  exampleTables_def exampleParse_def truncatedText_def framesText_def retryText_def fatalText_def
  exampleHandler_def exampleEnv_def receivedStreamingPayload_def resolve_def progressCall_def
  emptyState_def examplePayload_def retryMessage_def chunkFilename_def padStart_def showChunk_def
  showInt_def showNat.simps digitChar_def Let_def

theorem C6_error_occurred_resolves_attempt_witness:
  "msgType retryMessage = ''error-occurred'' \<and> resolved emptyState = None
   \<and> snd (exampleHandler emptyState retryMessage) = None
   \<and> resolved (fst (exampleHandler emptyState retryMessage)) = Some (Error ''boom'' True)
   \<and> resolved (fst (fst (callLambdaWithStreaming exampleTables exampleOptions exampleHandler 2
          (fst (exampleHandler emptyState retryMessage))
          [answering [PayloadChunk [(StatusSuccess, ''error-occurred'', fatalText)]]])))
       = Some (Error ''boom'' True)"
proof -
  have a: "msgType retryMessage = ''error-occurred''" by (simp add: retryMessage_def)
  have b: "resolved emptyState = None" by (simp add: emptyState_def)
  have e: "payloadError exampleEnv (msgPayload retryMessage) = ''boom''"
    "payloadShouldRetry exampleEnv (msgPayload retryMessage) = True"
    by (simp_all add: exampleEnv_def retryMessage_def)
  show ?thesis
    using C6_error_occurred_resolves_attempt [OF a b, of exampleEnv examplePayload "''/tmp/out''"
        exampleTables exampleOptions 2
        "[answering [PayloadChunk [(StatusSuccess, ''error-occurred'', fatalText)]]]"] a b
    by (simp only: e exampleHandler_def) 
qed

text \<open>
  The claim C6 as stated fails where it says that no further message of the attempt is
  processed: the handler keeps no record of having resolved, and a media message that the
  stream delivers after \<open>error-occurred\<close> is written to its file like any other.
\<close>

theorem C6_later_messages_are_processed:
  "written (fst (exampleHandler emptyState retryMessage)) = []
   \<and> written (fst (fst (callLambdaWithStreaming exampleTables exampleOptions exampleHandler 2 emptyState
        [answering [PayloadChunk [(StatusSuccess, ''error-occurred'', retryText),
                                  (StatusSuccess, ''video-chunk-rendered'', ''media'')],
                    InvokeComplete None []]])))
       = [(''/tmp/out/chunk:00000003:video'', RawBytes ''media'')]"
  by (simp add: example_defs)



lemma resolved_resolve:
  "resolved (resolve r s) = (case resolved s of None \<Rightarrow> Some r | Some r' \<Rightarrow> Some r')"
  by (simp add: resolve_def split: option.splits)

lemma requests_resolve: "requests (resolve r s) = requests s"
  by (simp add: resolve_def split: option.splits)

lemma requests_progressCall: "requests (progressCall c s) = requests s"
  by (simp add: progressCall_def)

lemma streamingCall_requests:
  "requests (fst (streamingCall tb env opts dir payload s ivks)) = requests s @ [payload]"
  by (simp add: streamingCall_def client_keeps_requests)

lemma streamRenderer_requests:
  assumes "streamRenderer tb env opts dir payload s ivks = Inr s1"
  shows "requests s1 = requests s @ [payload]"
proof -
  obtain s0 p where sc: "streamingCall tb env opts dir payload s ivks = (s0, p)"
    by (cases "streamingCall tb env opts dir payload s ivks")
  then have r: "requests s0 = requests s @ [payload]"
    using streamingCall_requests[of tb env opts dir payload s ivks] by simp
  from assms sc r show ?thesis
    by (cases p) (auto simp: streamRenderer_def requests_resolve split: if_splits)
qed

lemma streamRenderer_total:
  "ptype payload = Renderer \<Longrightarrow> \<exists>s1. streamRenderer tb env opts dir payload s ivks = Inr s1"
  by (cases "streamingCall tb env opts dir payload s ivks"; cases "snd (streamingCall tb env opts dir payload s ivks)")
     (auto simp: streamRenderer_def)


lemma remoteExit_not_retried: "\<not> retryTrigger remoteExit"
  by (simp add: remoteExit_def retryTrigger_def invokeCompleteError_def logsUrl_def exampleOptions_def
      newError_def INVALID_JSON_MESSAGE_def LAMBDA_STREAM_STALL_def STREAM_STALL_TIMEOUT_def
      showNat.simps digitChar_def)

lemmas run_defs =
  streamRendererFunctionWithRetry.simps streamRenderer_def streamingCall_def retryPayload_def
  answering_def callLambdaWithStreamingWithoutRetry_def invokeStreamOrTimeout_def
  STREAM_STALL_TIMEOUT_def streamerCallback_def innerPayload_def parseJsonOrThrowSource_def
  exampleTables_def exampleParse_def truncatedText_def framesText_def retryText_def fatalText_def
  exampleEnv_def receivedStreamingPayload_def resolve_def progressCall_def
  emptyState_def examplePayload_def Let_def remoteExit_def[symmetric] remoteExit_not_retried



text \<open>The payloads requested by the orchestrator: a log that only grows.\<close>

lemma requests_grow:
  "\<exists>ps. requests (fst (streamRendererFunctionWithRetry tb env opts dir payload s ats)) = requests s @ ps
        \<and> (ptype payload = Renderer \<longrightarrow> ats \<noteq> [] \<longrightarrow> (\<exists>more. ps = payload # more))"
proof (induction ats arbitrary: payload s)
  case Nil
  then show ?case by (simp add: streamRendererFunctionWithRetry.simps)
next
  case (Cons a rest)
  show ?case
  proof (cases "ptype payload = Renderer")
    case False
    then show ?thesis by (simp add: streamRendererFunctionWithRetry.simps)
  next
    case True
    then obtain s1 where sr: "streamRenderer tb env opts dir payload s (respond a payload) = Inr s1"
      using streamRenderer_total by blast
    have req: "requests s1 = requests s @ [payload]" by (rule streamRenderer_requests[OF sr])
    show ?thesis
    proof (cases "\<exists>e. resolved s1 = Some (Error e True)")
      case False
      then have "fst (streamRendererFunctionWithRetry tb env opts dir payload s (a # rest)) = s1"
        using True sr by (auto simp: streamRendererFunctionWithRetry.simps split: option.splits streamRendererResponse.splits)
      then show ?thesis using req by simp
    next
      case r: True
      then obtain e where e: "resolved s1 = Some (Error e True)" by blast
      let ?p = "retryPayload env payload"
      let ?s = "progressCall (AddRetry (roundNumber env (attempt payload + 1)) (dateNow a) (chunk payload)) s1"
      have unfold: "streamRendererFunctionWithRetry tb env opts dir payload s (a # rest)
          = streamRendererFunctionWithRetry tb env opts dir ?p ?s rest"
        using True sr e by (simp add: streamRendererFunctionWithRetry.simps)
      from Cons.IH[of ?p ?s] obtain ps where
        "requests (fst (streamRendererFunctionWithRetry tb env opts dir ?p ?s rest)) = requests ?s @ ps"
        by blast
      then show ?thesis using unfold req by (simp add: requests_progressCall)
    qed
  qed
qed

text \<open>
  The flags the worker can compute for a payload, and what follows for an attempt whose
  error messages all come from the worker: a retry is asked for only with retries left.
\<close>

lemma shouldRetryOf_range:
  "(\<exists>(w :: unit workerWorld) err. b = shouldRetryOf w p err) \<longleftrightarrow> (b \<longrightarrow> 0 < retriesLeft p)"
proof
  assume "\<exists>(w :: unit workerWorld) err. b = shouldRetryOf w p err"
  then show "b \<longrightarrow> 0 < retriesLeft p" by (auto simp: shouldRetryOf_def)
next
  assume a: "b \<longrightarrow> 0 < retriesLeft p"
  define w :: "unit workerWorld" where "w = undefined\<lparr>isFlakyError := (\<lambda>e. b)\<rparr>"
  have "b = shouldRetryOf w p (newError [])"
    using a by (auto simp: shouldRetryOf_def w_def newError_def)
  then show "\<exists>(w :: unit workerWorld) err. b = shouldRetryOf w p err" by blast
qed

lemma retry_flag_from_worker:
  fixes tb :: "('id, 'j) streamingTables" and env :: "('j, 'ei) rendererEnv"
  assumes fw: "\<forall>ivk\<in>set ivks. \<forall>fr\<in>set (framesOf ivk). fromRendererHandler tb env payload fr"
    and sr: "streamRenderer tb env opts dir payload s ivks = Inr s1"
    and res: "resolved s1 = Some (Error e True)"
  shows "0 < retriesLeft payload"
proof -
  let ?Q = "\<lambda>st :: ('j, 'ei) rendererState. \<forall>e. resolved st = Some (Error e True) \<longrightarrow> 0 < retriesLeft payload"
  let ?h = "receivedStreamingPayload env payload dir"
  let ?s0 = "s\<lparr>resolved := None, requests := requests s @ [payload]\<rparr>"
  have inv: "?Q (fst (fst (callLambdaWithStreaming tb opts ?h 2 ?s0 ivks)))"
  proof (rule callLambdaWithStreaming_invariant[where P = ?Q])
    show "?Q ?s0" by simp
  next
    fix st :: "('j, 'ei) rendererState" and fr :: "'id frame"
    assume fr: "fr \<in> (\<Union>ivk\<in>set ivks. set (framesOf ivk))" and q: "?Q st"
    then have f: "fromRendererHandler tb env payload fr" using fw by auto
    obtain status i data where fields: "fr = (status, i, data)" by (cases fr)
    show "?Q (fst (streamerCallback tb ?h st fr))"
    proof (cases "innerPayload tb (messageTypeIdToMessageType tb i) data")
      case (Inl e)
      then show ?thesis using fields q by (simp add: streamerCallback_def)
    next
      case (Inr p)
      let ?m = "\<lparr>successType = status, msgType = messageTypeIdToMessageType tb i, msgPayload = p\<rparr>"
      have cb: "streamerCallback tb ?h st fr = ?h st ?m"
        using fields Inr by (simp add: streamerCallback_def)
      show ?thesis
      proof (cases "messageTypeIdToMessageType tb i = ''error-occurred''")
        case False
        then have "resolved (fst (?h st ?m)) = resolved st"
          by (intro handler_other_message) simp
        then show ?thesis using cb q by simp
      next
        case True
        then have "\<exists>(w :: unit workerWorld) err. payloadShouldRetry env p = shouldRetryOf w payload err"
          using f fields Inr by (simp add: fromRendererHandler_def)
        then have flag: "payloadShouldRetry env p \<longrightarrow> 0 < retriesLeft payload"
          by (simp add: shouldRetryOf_range)
        have "resolved (fst (?h st ?m)) =
                (case resolved st of
                   None \<Rightarrow> Some (Error (payloadError env p) (payloadShouldRetry env p))
                 | Some r \<Rightarrow> Some r)"
          using True by (simp add: handler_error_occurred resolved_resolve progressCall_def)
        then show ?thesis using cb q flag by (auto split: option.splits)
      qed
    qed
  qed
  obtain s0 p where sc: "streamingCall tb env opts dir payload s ivks = (s0, p)"
    by (cases "streamingCall tb env opts dir payload s ivks")
  then have q0: "?Q s0" using inv by (simp add: streamingCall_def)
  from sr sc have "resolved s1 = resolved s0 \<or> resolved s1 = Some Success
      \<or> (\<exists>t. resolved s1 = Some (Error t False))"
    by (cases p) (auto simp: streamRenderer_def resolved_resolve split: if_splits option.splits)
  with res have "resolved s0 = Some (Error e True)" by auto
  with q0 show ?thesis by blast
qed

text \<open>The orchestrator's own test: it retries exactly when the failure says so.\<close>

lemma retry_iff_shouldRetry:
  fixes tb :: "('id, 'j) streamingTables" and env :: "('j, 'ei) rendererEnv"
  assumes "ptype payload = Renderer"
    and "streamRenderer tb env opts dir payload s (respond a payload) = Inr s1"
    and "resolved s1 = Some (Error e shouldRetry)"
  shows "(shouldRetry \<longleftrightarrow>
           (\<exists>more. requests (fst (streamRendererFunctionWithRetry tb env opts dir payload s (a # b # rest)))
                    = requests s @ payload # retryPayload env payload # more))
       \<and> (\<not> shouldRetry \<longrightarrow>
            streamRendererFunctionWithRetry tb env opts dir payload s (a # b # rest)
              = (s1, Threw (ThrownString e)))"
proof -
  let ?p = "retryPayload env payload"
  let ?s = "progressCall (AddRetry (roundNumber env (attempt payload + 1)) (dateNow a) (chunk payload)) s1"
  have req: "requests s1 = requests s @ [payload]" by (rule streamRenderer_requests[OF assms(2)])
  show ?thesis
  proof (cases shouldRetry)
    case False
    then have "streamRendererFunctionWithRetry tb env opts dir payload s (a # b # rest)
              = (s1, Threw (ThrownString e))"
      using assms by (simp add: streamRendererFunctionWithRetry.simps)
    then show ?thesis using False req by simp
  next
    case True
    have unfold: "streamRendererFunctionWithRetry tb env opts dir payload s (a # b # rest)
          = streamRendererFunctionWithRetry tb env opts dir ?p ?s (b # rest)"
      using assms True by (simp add: streamRendererFunctionWithRetry.simps)
    have "ptype ?p = Renderer" using assms(1) by (simp add: retryPayload_def)
    with requests_grow[of tb env opts dir ?p ?s "b # rest"] obtain more where
      "requests (fst (streamRendererFunctionWithRetry tb env opts dir ?p ?s (b # rest)))
         = requests ?s @ ?p # more" by auto
    then have "requests (fst (streamRendererFunctionWithRetry tb env opts dir payload s (a # b # rest)))
         = requests s @ payload # ?p # more"
      using unfold req by (simp add: requests_progressCall)
    then show ?thesis using True by blast
  qed
qed

text \<open>
  C3. Of orchestrator and worker together: when the error messages of the attempt are the
  worker's, an attempt that resolved as a failure is followed by a retry (a further request,
  with the payload built for the retry) if and only if the failure carries
  \<open>shouldRetry = true\<close> and the payload's retries-remaining is above zero; otherwise the
  orchestrator throws the failure's error text. (The test on retries-remaining is the
  worker's, made when it sets the flag; the orchestrator reads the flag.)
\<close>

theorem C3_retry_iff_flag_and_retries_left:
  fixes tb :: "('id, 'j) streamingTables" and env :: "('j, 'ei) rendererEnv"
  assumes "ptype payload = Renderer"
    and "streamRenderer tb env opts dir payload s (respond a payload) = Inr s1"
    and "resolved s1 = Some (Error e shouldRetry)"
    and "\<forall>ivk\<in>set (respond a payload). \<forall>fr\<in>set (framesOf ivk). fromRendererHandler tb env payload fr"
  shows "((shouldRetry \<and> 0 < retriesLeft payload) \<longleftrightarrow>
           (\<exists>more. requests (fst (streamRendererFunctionWithRetry tb env opts dir payload s (a # b # rest)))
                    = requests s @ payload # retryPayload env payload # more))
       \<and> (\<not> (shouldRetry \<and> 0 < retriesLeft payload) \<longrightarrow>
            streamRendererFunctionWithRetry tb env opts dir payload s (a # b # rest)
              = (s1, Threw (ThrownString e)))"
proof -
  have "shouldRetry \<longrightarrow> 0 < retriesLeft payload"
  proof
    assume shouldRetry
    with assms(3) have "resolved s1 = Some (Error e True)" by simp
    then show "0 < retriesLeft payload" by (rule retry_flag_from_worker[OF assms(4) assms(2)])
  qed
  then have eq: "(shouldRetry \<and> 0 < retriesLeft payload) = shouldRetry" by blast
  show ?thesis
    unfolding eq by (rule retry_iff_shouldRetry[OF assms(1-3)])
qed

lemma failingAnswer_fromRendererHandler:
  "\<forall>ivk\<in>set (failingAnswer p). \<forall>fr\<in>set (framesOf ivk). fromRendererHandler exampleTables exampleEnv p fr"
proof -
  have "0 < retriesLeft p \<Longrightarrow> \<exists>(w :: unit workerWorld) err. shouldRetryOf w p err"
    using shouldRetryOf_range[of True p] by simp
  moreover have "\<exists>(w :: unit workerWorld) err. \<not> shouldRetryOf w p err"
    using shouldRetryOf_range[of False p] by simp
  ultimately show ?thesis
    by (simp add: failingAnswer_def answering_def framesOf_def fromRendererHandler_def innerPayload_def
        parseJsonOrThrowSource_def exampleTables_def exampleParse_def exampleEnv_def
        truncatedText_def framesText_def retryText_def fatalText_def)
qed

theorem C3_retry_iff_flag_and_retries_left_witness:
  "ptype examplePayload = Renderer
   \<and> streamRenderer exampleTables exampleEnv exampleOptions ''/tmp/out'' examplePayload emptyState
        (failingAnswer examplePayload)
       = Inr \<lparr>progressCalls = [AddErrorWithoutUpload (), SetFrames (Some 3) 0 0], written = [],
              files = [], resolved = Some (Error ''boom'' True), requests = [examplePayload]\<rparr>
   \<and> 0 < retriesLeft examplePayload
   \<and> (\<exists>more. requests (fst (streamRendererFunctionWithRetry exampleTables exampleEnv exampleOptions
          ''/tmp/out'' examplePayload emptyState
          [\<lparr>respond = failingAnswer, dateNow = 1000\<rparr>, \<lparr>respond = failingAnswer, dateNow = 2000\<rparr>]))
       = examplePayload # examplePayload\<lparr>attempt := 2, retriesLeft := 0\<rparr> # more)
   \<and> streamRenderer exampleTables exampleEnv exampleOptions ''/tmp/out''
        (examplePayload\<lparr>attempt := 2, retriesLeft := 0\<rparr>) emptyState
        (failingAnswer (examplePayload\<lparr>attempt := 2, retriesLeft := 0\<rparr>))
       = Inr \<lparr>progressCalls = [AddErrorWithoutUpload (), SetFrames (Some 3) 0 0], written = [],
              files = [], resolved = Some (Error ''boom'' False),
              requests = [examplePayload\<lparr>attempt := 2, retriesLeft := 0\<rparr>]\<rparr>
   \<and> streamRendererFunctionWithRetry exampleTables exampleEnv exampleOptions ''/tmp/out''
        (examplePayload\<lparr>attempt := 2, retriesLeft := 0\<rparr>) emptyState
        [\<lparr>respond = failingAnswer, dateNow = 1000\<rparr>, \<lparr>respond = failingAnswer, dateNow = 2000\<rparr>]
       = (\<lparr>progressCalls = [AddErrorWithoutUpload (), SetFrames (Some 3) 0 0], written = [],
            files = [], resolved = Some (Error ''boom'' False),
            requests = [examplePayload\<lparr>attempt := 2, retriesLeft := 0\<rparr>]\<rparr>,
          Threw (ThrownString ''boom''))"
proof -
  let ?a = "\<lparr>respond = failingAnswer, dateNow = 1000\<rparr>"
  let ?b = "\<lparr>respond = failingAnswer, dateNow = 2000\<rparr>"
  let ?q = "examplePayload\<lparr>attempt := 2, retriesLeft := 0\<rparr>"
  let ?s1 = "\<lparr>progressCalls = [AddErrorWithoutUpload (), SetFrames (Some 3) 0 0], written = [],
              files = [], resolved = Some (Error ''boom'' True), requests = [examplePayload]\<rparr>
              :: (exampleJson, unit) rendererState"
  let ?s2 = "\<lparr>progressCalls = [AddErrorWithoutUpload (), SetFrames (Some 3) 0 0], written = [],
              files = [], resolved = Some (Error ''boom'' False), requests = [?q]\<rparr>
              :: (exampleJson, unit) rendererState"
  have h1: "ptype examplePayload = Renderer" and h1': "ptype ?q = Renderer"
    by (simp_all add: examplePayload_def)
  have h2: "streamRenderer exampleTables exampleEnv exampleOptions ''/tmp/out'' examplePayload emptyState
        (failingAnswer examplePayload) = Inr ?s1"
    by (simp add: run_defs failingAnswer_def)
  have h2': "streamRenderer exampleTables exampleEnv exampleOptions ''/tmp/out'' ?q emptyState
        (failingAnswer ?q) = Inr ?s2"
    by (simp add: run_defs failingAnswer_def)
  have r: "respond ?a = failingAnswer" by simp
  have h3: "resolved ?s1 = Some (Error ''boom'' True)" and h3': "resolved ?s2 = Some (Error ''boom'' False)"
    by simp_all
  have fw: "\<forall>ivk\<in>set (respond ?a p). \<forall>fr\<in>set (framesOf ivk).
              fromRendererHandler exampleTables exampleEnv p fr" for p
    unfolding r by (rule failingAnswer_fromRendererHandler)
  have pos: "0 < retriesLeft examplePayload" by (simp add: examplePayload_def)
  have p2: "retryPayload exampleEnv examplePayload = ?q"
    by (simp add: retryPayload_def exampleEnv_def examplePayload_def)
  have e: "requests emptyState = []" by (simp add: emptyState_def)
  have h2r: "streamRenderer exampleTables exampleEnv exampleOptions ''/tmp/out'' examplePayload emptyState
        (respond ?a examplePayload) = Inr ?s1"
    unfolding r by (rule h2)
  have h2r': "streamRenderer exampleTables exampleEnv exampleOptions ''/tmp/out'' ?q emptyState
        (respond ?a ?q) = Inr ?s2"
    unfolding r by (rule h2')
  note first = C3_retry_iff_flag_and_retries_left [where b = ?b and rest = "[]" and a = ?a
      and payload = examplePayload and shouldRetry = True, OF h1 h2r h3 fw[of examplePayload]]
  note second = C3_retry_iff_flag_and_retries_left [where b = ?b and rest = "[]" and a = ?a
      and payload = ?q and shouldRetry = False, OF h1' h2r' h3' fw[of ?q]]
  from first pos
  have "\<exists>more. requests (fst (streamRendererFunctionWithRetry exampleTables exampleEnv exampleOptions
          ''/tmp/out'' examplePayload emptyState [?a, ?b]))
       = requests emptyState @ examplePayload # retryPayload exampleEnv examplePayload # more"
    by blast
  then have retried: "\<exists>more. requests (fst (streamRendererFunctionWithRetry exampleTables exampleEnv
          exampleOptions ''/tmp/out'' examplePayload emptyState [?a, ?b]))
       = examplePayload # ?q # more"
    unfolding p2 e by (simp only: append_Nil)
  from second
  have fatal: "streamRendererFunctionWithRetry exampleTables exampleEnv exampleOptions ''/tmp/out'' ?q
        emptyState [?a, ?b] = (?s2, Threw (ThrownString ''boom''))"
    by blast
  from h1 h2 pos retried h2' fatal show ?thesis by (intro conjI)
qed

section \<open>Properties of renderer.ts\<close>

text \<open>What \<open>renderHandler\<close> emits and deletes.\<close>

lemma emitted_onStream: "emitted (onStream m s) = emitted s @ [m]"
  and rmCalls_onStream: "rmCalls (onStream m s) = rmCalls s"
  by (simp_all add: onStream_def)

lemma fold_onStream:
  "emitted (fold onStream ms s) = emitted s @ ms \<and> rmCalls (fold onStream ms s) = rmCalls s"
  by (induction ms arbitrary: s) (simp_all add: emitted_onStream rmCalls_onStream)

lemma callback_messages_no_error:
  "filter isErrorOccurred (concat (map (renderCallbackMessages w params) cbs)) = []"
proof (induction cbs)
  case Nil
  then show ?case by simp
next
  case (Cons c cbs)
  have "filter isErrorOccurred (renderCallbackMessages w params c) = []"
    by (cases c) (simp_all add: onProgress_def Let_def)
  with Cons show ?case by simp
qed

lemma sendAndDelete_effects:
  "\<exists>pre. emitted (fst (sendAndDelete w params s)) = emitted s @ pre \<and> filter isErrorOccurred pre = []"
  by (auto simp: sendAndDelete_def Let_def emitted_onStream split: option.splits sum.splits)

lemma sendAndDelete_rmCalls:
  "rmCalls (fst (sendAndDelete w params s)) =
     rmCalls s @ (if (audioOutputLocation w params = None \<or> \<not> isl (readAudioFile w)) \<and> \<not> isl (readVideoFile w)
                  then scratchArtifacts w params else [])"
  by (auto simp: sendAndDelete_def Let_def rmCalls_onStream split: option.splits sum.splits)

lemma renderHandler_effects:
  "\<exists>pre. emitted (fst (renderHandler w params s)) = emitted s @ pre \<and> filter isErrorOccurred pre = []"
proof (cases "ptype params = Renderer \<and> launchVersion params = VERSION w \<and> getBrowserInstance w = None
      \<and> chunk params \<noteq> None \<and> frameRange params \<noteq> None \<and> willRenderAudioEval w \<noteq> AudioMaybe
      \<and> resolvedPropsPromise w = None \<and> inputPropsPromise w = None")
  case False
  then have "emitted (fst (renderHandler w params s)) = emitted s @ []"
    by (auto simp: renderHandler_def split: option.splits)
  then show ?thesis by (intro exI[of _ "[]"]) simp
next
  case True
  let ?ms = "concat (map (renderCallbackMessages w params) (renderCallbacks w))"
  let ?s1 = "fold onStream ?ms s"
  have e1: "emitted ?s1 = emitted s @ ?ms" by (simp add: fold_onStream)
  show ?thesis
  proof (cases "internalRenderMedia w")
    case (Some e)
    with True have "fst (renderHandler w params s) = ?s1"
      by (auto simp: renderHandler_def Let_def)
    with e1 show ?thesis using callback_messages_no_error[of w params "renderCallbacks w"] by auto
  next
    case None
    with True have r: "renderHandler w params s = sendAndDelete w params ?s1"
      by (auto simp: renderHandler_def Let_def)
    from sendAndDelete_effects[of w params ?s1] obtain pre where
      "emitted (fst (sendAndDelete w params ?s1)) = emitted ?s1 @ pre" "filter isErrorOccurred pre = []"
      by blast
    with r e1 have "emitted (fst (renderHandler w params s)) = emitted s @ (?ms @ pre)"
      "filter isErrorOccurred (?ms @ pre) = []"
      using callback_messages_no_error[of w params "renderCallbacks w"] by simp_all
    then show ?thesis by blast
  qed
qed

lemma renderHandler_rmCalls:
  "rmCalls (fst (renderHandler w params s)) =
     rmCalls s @ (if artifactsRead w params then scratchArtifacts w params else [])"
proof (cases "ptype params = Renderer \<and> launchVersion params = VERSION w \<and> getBrowserInstance w = None
      \<and> chunk params \<noteq> None \<and> frameRange params \<noteq> None \<and> willRenderAudioEval w \<noteq> AudioMaybe
      \<and> resolvedPropsPromise w = None \<and> inputPropsPromise w = None")
  case False
  then have "rmCalls (fst (renderHandler w params s)) = rmCalls s" "\<not> artifactsRead w params"
    by (auto simp: renderHandler_def artifactsRead_def split: option.splits)
  then show ?thesis by simp
next
  case True
  let ?ms = "concat (map (renderCallbackMessages w params) (renderCallbacks w))"
  let ?s1 = "fold onStream ?ms s"
  have e1: "rmCalls ?s1 = rmCalls s" by (simp add: fold_onStream)
  show ?thesis
  proof (cases "internalRenderMedia w")
    case (Some e)
    with True have "fst (renderHandler w params s) = ?s1" "\<not> artifactsRead w params"
      by (auto simp: renderHandler_def Let_def artifactsRead_def)
    with e1 show ?thesis by simp
  next
    case None
    with True have r: "renderHandler w params s = sendAndDelete w params ?s1"
      by (auto simp: renderHandler_def Let_def)
    have a: "artifactsRead w params \<longleftrightarrow>
        (audioOutputLocation w params = None \<or> \<not> isl (readAudioFile w)) \<and> \<not> isl (readVideoFile w)"
      using True None by (auto simp: artifactsRead_def)
    show ?thesis using r e1 a by (simp add: sendAndDelete_rmCalls)
  qed
qed

text \<open>
  C5, as the code has it. Outside the test environment, when \<open>renderHandler\<close> fails with
  \<open>err\<close>, the handler emits one more message, the \<open>error-occurred\<close> message for \<open>err\<close>,
  runs its \<open>finally\<close> block and throws \<open>err\<close>; nothing emitted before it is an
  \<open>error-occurred\<close> message. The flag \<open>shouldRetry\<close> of the message holds exactly when
  the error is flaky, retries are left and the error is not a \<open>CancelledError\<close>;
  \<open>willRetry\<close> repeats it and \<open>isFatal\<close> negates it.
\<close>

theorem C5_failure_emits_one_error_message:
  fixes w :: "'t workerWorld"
  defines "shouldRetry \<equiv> \<lambda>(w :: 't workerWorld) params err.
             isFlakyError w err \<and> 0 < retriesLeft params \<and> name err \<noteq> ''CancelledError''"
  assumes "ptype params = Renderer"
    and "renderHandler w params s = (s1, Some err)"
    and "nodeEnv w \<noteq> Some ''test''"
  shows "rendererHandler w params s
           = (s1\<lparr>emitted := emitted s1 @ [errorOccurred w params err], cleanedUp := True\<rparr>, HandlerThrew err)
       \<and> (\<exists>pre. emitted s1 = emitted s @ pre \<and> filter isErrorOccurred pre = [])
       \<and> errorOccurred w params err
           = ErrorOccurred (stack err) (shouldRetry w params err)
               \<lparr>eiName = name err, eiMessage = message err, eiStack = stack err,
                eiChunk = chunk params, eiFrame = None, eiType = ''renderer'',
                isFatal = (\<not> shouldRetry w params err), tmpDir = getTmpDirStateIfENoSp w (stack err),
                eiAttempt = attempt params,
                totalAttempts = roundNumberW w (retriesLeft params + attempt params),
                willRetry = shouldRetry w params err\<rparr>"
proof -
  have a: "rendererHandler w params s
           = (s1\<lparr>emitted := emitted s1 @ [errorOccurred w params err], cleanedUp := True\<rparr>, HandlerThrew err)"
    using assms(2-4) by (simp add: rendererHandler_def onStream_def)
  have b: "\<exists>pre. emitted s1 = emitted s @ pre \<and> filter isErrorOccurred pre = []"
    using renderHandler_effects[of w params s] assms(3) by simp
  have c: "errorOccurred w params err
           = ErrorOccurred (stack err) (shouldRetry w params err)
               \<lparr>eiName = name err, eiMessage = message err, eiStack = stack err,
                eiChunk = chunk params, eiFrame = None, eiType = ''renderer'',
                isFatal = (\<not> shouldRetry w params err), tmpDir = getTmpDirStateIfENoSp w (stack err),
                eiAttempt = attempt params,
                totalAttempts = roundNumberW w (retriesLeft params + attempt params),
                willRetry = shouldRetry w params err\<rparr>"
    by (simp add: errorOccurred_def shouldRetryOf_def shouldRetry_def Let_def)
  from a b c show ?thesis by blast
qed

lemmas worker_defs =
  rendererHandler_def renderHandler_def sendAndDelete_def onStream_def promiseAll_def
  scratchArtifacts_def videoOutputLocation_def audioOutputLocation_def audioExtension_def
  audioCodec_def chunkCodec_def chunkName_def onProgress_def remIsZero_def errorOccurred_def
  shouldRetryOf_def exampleWorld_def crashingWorld_def testWorld_def idleWorker_def
  examplePayload_def browserCrash_def newError_def padStart_def showChunk_def showInt_def
  showNat.simps digitChar_def replicate_numeral_unfold Let_def

lemma example_render_succeeds:
  "rendererHandler exampleWorld examplePayload idleWorker
     = (\<lparr>emitted = [LambdaInvoked 1, FramesRendered 50 0, FramesRendered 100 100,
                     AudioChunkRendered ''audio'', VideoChunkRendered ''video'', ChunkComplete 5000 1000,
                     ErrorOccurred ''Error: write EPIPE'' False
                       \<lparr>eiName = ''Error'', eiMessage = ''write EPIPE'', eiStack = ''Error: write EPIPE'',
                        eiChunk = Some 3, eiFrame = None, eiType = ''renderer'', isFatal = True,
                        tmpDir = (), eiAttempt = 1, totalAttempts = 2, willRetry = False\<rparr>],
         rmCalls = [''/tmp/remotion-chunks-1/localchunk-00000003.ts'',
                    ''/tmp/remotion-chunks-1/localchunk-00000003.aac'', ''/tmp/remotion-render-1''],
         cleanedUp = True\<rparr>, HandlerThrew (newError ''write EPIPE''))"
  by (simp add: worker_defs)

lemma example_crash:
  "renderHandler crashingWorld examplePayload idleWorker
     = (\<lparr>emitted = [LambdaInvoked 1], rmCalls = [], cleanedUp = False\<rparr>, Some browserCrash)"
  by (simp add: worker_defs)

theorem C5_failure_emits_one_error_message_witness:
  "ptype examplePayload = Renderer
   \<and> renderHandler crashingWorld examplePayload idleWorker
       = (\<lparr>emitted = [LambdaInvoked 1], rmCalls = [], cleanedUp = False\<rparr>, Some browserCrash)
   \<and> nodeEnv crashingWorld = Some ''production''
   \<and> rendererHandler crashingWorld examplePayload idleWorker
       = (\<lparr>emitted = [LambdaInvoked 1,
                       ErrorOccurred ''Error: Target closed'' True
                         \<lparr>eiName = ''Error'', eiMessage = ''Target closed'',
                          eiStack = ''Error: Target closed'', eiChunk = Some 3, eiFrame = None,
                          eiType = ''renderer'', isFatal = False, tmpDir = (), eiAttempt = 1,
                          totalAttempts = 2, willRetry = True\<rparr>],
           rmCalls = [], cleanedUp = True\<rparr>, HandlerThrew browserCrash)"
proof -
  have h1: "ptype examplePayload = Renderer" by (simp add: examplePayload_def)
  have h2: "renderHandler crashingWorld examplePayload idleWorker
       = (\<lparr>emitted = [LambdaInvoked 1], rmCalls = [], cleanedUp = False\<rparr>, Some browserCrash)"
    by (rule example_crash)
  have env: "nodeEnv crashingWorld = Some ''production''"
    by (simp add: crashingWorld_def exampleWorld_def)
  then have h3: "nodeEnv crashingWorld \<noteq> Some ''test''" by simp
  have flaky: "isFlakyError crashingWorld browserCrash" "name browserCrash = ''Error''"
    "stack browserCrash = ''Error: Target closed''" "message browserCrash = ''Target closed''"
    "retriesLeft examplePayload = 1" "attempt examplePayload = 1" "chunk examplePayload = Some 3"
    "getTmpDirStateIfENoSp crashingWorld ''Error: Target closed'' = ()"
    "roundNumberW crashingWorld 2 = 2"
    by (simp_all add: crashingWorld_def exampleWorld_def browserCrash_def newError_def examplePayload_def)
  from C5_failure_emits_one_error_message [OF h1 h2 h3]
  have "rendererHandler crashingWorld examplePayload idleWorker
       = (\<lparr>emitted = [LambdaInvoked 1], rmCalls = [], cleanedUp = False\<rparr>
            \<lparr>emitted := emitted \<lparr>emitted = [LambdaInvoked 1], rmCalls = [], cleanedUp = False\<rparr>
               @ [ErrorOccurred (stack browserCrash)
                   (isFlakyError crashingWorld browserCrash \<and> 0 < retriesLeft examplePayload
                     \<and> name browserCrash \<noteq> ''CancelledError'')
                   \<lparr>eiName = name browserCrash, eiMessage = message browserCrash,
                    eiStack = stack browserCrash, eiChunk = chunk examplePayload, eiFrame = None,
                    eiType = ''renderer'',
                    isFatal = (\<not> (isFlakyError crashingWorld browserCrash \<and> 0 < retriesLeft examplePayload
                     \<and> name browserCrash \<noteq> ''CancelledError'')),
                    tmpDir = getTmpDirStateIfENoSp crashingWorld (stack browserCrash),
                    eiAttempt = attempt examplePayload,
                    totalAttempts = roundNumberW crashingWorld
                      (retriesLeft examplePayload + attempt examplePayload),
                    willRetry = (isFlakyError crashingWorld browserCrash \<and> 0 < retriesLeft examplePayload
                     \<and> name browserCrash \<noteq> ''CancelledError'')\<rparr>],
              cleanedUp := True\<rparr>, HandlerThrew browserCrash)"
    by simp
  then have "rendererHandler crashingWorld examplePayload idleWorker
       = (\<lparr>emitted = [LambdaInvoked 1,
                       ErrorOccurred ''Error: Target closed'' True
                         \<lparr>eiName = ''Error'', eiMessage = ''Target closed'',
                          eiStack = ''Error: Target closed'', eiChunk = Some 3, eiFrame = None,
                          eiType = ''renderer'', isFatal = False, tmpDir = (), eiAttempt = 1,
                          totalAttempts = 2, willRetry = True\<rparr>],
           rmCalls = [], cleanedUp = True\<rparr>, HandlerThrew browserCrash)"
    by (simp add: flaky)
  with h1 h2 env show ?thesis by blast
qed

text \<open>
  The claim C5 as stated fails under \<open>NODE_ENV=test\<close>, where the \<open>catch\<close> block
  rethrows at once: the failure is not classified and no \<open>error-occurred\<close> message is
  emitted.
\<close>

theorem C5_test_environment_emits_nothing:
  "renderHandler testWorld examplePayload idleWorker
     = (\<lparr>emitted = [LambdaInvoked 1], rmCalls = [], cleanedUp = False\<rparr>, Some browserCrash)
   \<and> rendererHandler testWorld examplePayload idleWorker
     = (\<lparr>emitted = [LambdaInvoked 1], rmCalls = [], cleanedUp = True\<rparr>, HandlerThrew browserCrash)"
  by (simp add: worker_defs)

text \<open>
  C7, as the code has it. The handler calls \<open>fs.promises.rm\<close> on the video output, the
  audio output if there is one, and the render temp directory \<open>outputPath\<close>, exactly when
  it got as far as reading the rendered files, and on nothing otherwise; the second temp
  directory \<open>outdir\<close> is never among them. Whether that point is reached, and which paths
  are deleted, does not depend on how the three sends end. (A call of \<open>rm\<close> is counted
  when it is issued; the handler awaits it together with the sends.)
\<close>

theorem C7_deletions_issued_once_artifacts_are_read:
  "rmCalls (fst (rendererHandler w params s))
     = rmCalls s @ (if artifactsRead w params then scratchArtifacts w params else [])
   \<and> artifactsRead (w\<lparr>sendAudio := sa, sendVideo := sv, sendChunkComplete := sc\<rparr>) params
       = artifactsRead w params
   \<and> scratchArtifacts (w\<lparr>sendAudio := sa, sendVideo := sv, sendChunkComplete := sc\<rparr>) params
       = scratchArtifacts w params"
proof -
  have "rmCalls (fst (rendererHandler w params s)) = rmCalls (fst (renderHandler w params s))
        \<or> (ptype params \<noteq> Renderer \<and> rmCalls (fst (rendererHandler w params s)) = rmCalls s)"
    by (cases "renderHandler w params s"; cases "snd (renderHandler w params s)")
       (auto simp: rendererHandler_def onStream_def)
  moreover have "ptype params \<noteq> Renderer \<Longrightarrow> \<not> artifactsRead w params"
    by (simp add: artifactsRead_def)
  ultimately have a: "rmCalls (fst (rendererHandler w params s))
     = rmCalls s @ (if artifactsRead w params then scratchArtifacts w params else [])"
    using renderHandler_rmCalls[of w params s] by auto
  let ?w = "w\<lparr>sendAudio := sa, sendVideo := sv, sendChunkComplete := sc\<rparr>"
  have ac: "audioCodec ?w = audioCodec w"
    by (simp add: audioCodec_def split: option.splits)
  have ae: "audioExtension ?w = audioExtension w"
    by (simp add: audioExtension_def ac split: option.splits)
  have cc: "chunkCodec ?w params = chunkCodec w params"
    by (simp add: chunkCodec_def)
  have loc: "audioOutputLocation ?w params = audioOutputLocation w params"
    "videoOutputLocation ?w params = videoOutputLocation w params"
    by (simp_all add: audioOutputLocation_def videoOutputLocation_def ae ac cc split: option.splits)
  have b: "artifactsRead (w\<lparr>sendAudio := sa, sendVideo := sv, sendChunkComplete := sc\<rparr>) params
       = artifactsRead w params"
    by (simp add: artifactsRead_def loc)
  have c: "scratchArtifacts (w\<lparr>sendAudio := sa, sendVideo := sv, sendChunkComplete := sc\<rparr>) params
       = scratchArtifacts w params"
    by (simp add: scratchArtifacts_def loc)
  from a b c show ?thesis by blast
qed

theorem C7_deletions_issued_once_artifacts_are_read_witness:
  "artifactsRead exampleWorld examplePayload
   \<and> sendVideo exampleWorld = Some (newError ''write EPIPE'')
   \<and> rmCalls (fst (rendererHandler exampleWorld examplePayload idleWorker))
       = [''/tmp/remotion-chunks-1/localchunk-00000003.ts'',
          ''/tmp/remotion-chunks-1/localchunk-00000003.aac'', ''/tmp/remotion-render-1'']"
proof -
  have a: "artifactsRead exampleWorld examplePayload"
    by (simp add: artifactsRead_def worker_defs)
  have b: "scratchArtifacts exampleWorld examplePayload
       = [''/tmp/remotion-chunks-1/localchunk-00000003.ts'',
          ''/tmp/remotion-chunks-1/localchunk-00000003.aac'', ''/tmp/remotion-render-1'']"
    by (simp add: worker_defs)
  have c: "sendVideo exampleWorld = Some (newError ''write EPIPE'')"
    by (simp add: exampleWorld_def)
  have "rmCalls (fst (rendererHandler exampleWorld examplePayload idleWorker))
       = rmCalls idleWorker @ scratchArtifacts exampleWorld examplePayload"
    using C7_deletions_issued_once_artifacts_are_read [of exampleWorld examplePayload idleWorker] a
    by simp
  then show ?thesis using a b c by (simp add: idleWorker_def)
qed

text \<open>
  The claim C7 as stated fails on an exit path that fails earlier: rendering has started
  (\<open>lambda-invoked\<close> was emitted), the browser crashes, the handler throws, and no deletion
  has been issued.
\<close>

theorem C7_render_failure_deletes_nothing:
  "emitted (fst (renderHandler crashingWorld examplePayload idleWorker)) = [LambdaInvoked 1]
   \<and> snd (rendererHandler crashingWorld examplePayload idleWorker) = HandlerThrew browserCrash
   \<and> rmCalls (fst (rendererHandler crashingWorld examplePayload idleWorker)) = []"
  by (simp add: worker_defs)

section \<open>Properties of orchestrator and worker together\<close>

text \<open>
  On counts, the payload built for a retry is the exact one: attempt plus one,
  retries-remaining minus one, which is not negative; and its numbers are counts again.
\<close>

lemma positive_integer_ge_one:
  fixes x :: real
  assumes "x \<in> \<int>" and "0 < x"
  shows "1 \<le> x"
proof -
  from assms(1) obtain k :: int where k: "x = of_int k" by (auto elim: Ints_cases)
  with assms(2) have "0 < k" by simp
  then have "1 \<le> k" by simp
  then show ?thesis using k by simp
qed

lemma retryPayload_on_counts:
  assumes rnd: "exactOnSafeIntegers (roundNumber env)"
    and safe: "safeCounts p"
    and pos: "0 < retriesLeft p"
  shows "retryPayload env p = p\<lparr>attempt := attempt p + 1, retriesLeft := retriesLeft p - 1\<rparr>"
    and "0 \<le> retriesLeft p - 1"
    and "safeCounts (retryPayload env p)"
proof -
  from safe have ints: "attempt p \<in> \<int>" "retriesLeft p \<in> \<int>"
    and bound: "\<bar>attempt p\<bar> + \<bar>retriesLeft p\<bar> \<le> 2 ^ 53 - 1"
    by (simp_all add: safeCounts_def)
  have ge: "1 \<le> retriesLeft p" by (rule positive_integer_ge_one[OF ints(2) pos])
  then show nonneg: "0 \<le> retriesLeft p - 1" by simp
  have "attempt p + 1 \<in> \<int>" "retriesLeft p - 1 \<in> \<int>" using ints by simp_all
  moreover have "\<bar>attempt p + 1\<bar> \<le> 2 ^ 53 - 1" using bound ge by linarith
  moreover have "\<bar>retriesLeft p - 1\<bar> \<le> 2 ^ 53 - 1" using bound ge by linarith
  ultimately have "isSafeInteger (attempt p + 1)" "isSafeInteger (retriesLeft p - 1)"
    by (simp_all add: isSafeInteger_def)
  with rnd have exact: "roundNumber env (attempt p + 1) = attempt p + 1"
    "roundNumber env (retriesLeft p - 1) = retriesLeft p - 1"
    by (simp_all add: exactOnSafeIntegers_def)
  then show eq: "retryPayload env p = p\<lparr>attempt := attempt p + 1, retriesLeft := retriesLeft p - 1\<rparr>"
    by (simp add: retryPayload_def)
  have "\<bar>attempt p + 1\<bar> + \<bar>retriesLeft p - 1\<bar> \<le> 2 ^ 53 - 1" using bound ge by linarith
  then show "safeCounts (retryPayload env p)"
    using ints by (simp add: eq safeCounts_def)
qed

text \<open>
  C8. For counts, that is, for a payload whose attempt number and retries-remaining are
  integers within the range in which the runtime's arithmetic is exact, and when the error
  messages that answer a payload are the worker's: the payloads requested for a chunk form a
  chain, each being the previous one with the attempt count one higher and retries-remaining
  one lower and not negative, all other fields as they were. The first of them is the payload
  the orchestrator was called with.
\<close>

theorem C8_retry_chain:
  fixes tb :: "('id, 'j) streamingTables" and env :: "('j, 'ei) rendererEnv"
  assumes "\<forall>a\<in>set ats. \<forall>p. \<forall>ivk\<in>set (respond a p). \<forall>fr\<in>set (framesOf ivk).
             fromRendererHandler tb env p fr"
    and "exactOnSafeIntegers (roundNumber env)"
    and "safeCounts payload"
  shows "\<exists>ps. requests (fst (streamRendererFunctionWithRetry tb env opts dir payload s ats)) = requests s @ ps
            \<and> retryChain ps \<and> (ps \<noteq> [] \<longrightarrow> hd ps = payload)"
  using assms
proof (induction ats arbitrary: payload s)
  case Nil
  have "requests (fst (streamRendererFunctionWithRetry tb env opts dir payload s [])) = requests s @ []"
    by (simp add: streamRendererFunctionWithRetry.simps)
  then show ?case by (intro exI[of _ "[]"]) simp
next
  case (Cons a rest)
  show ?case
  proof (cases "ptype payload = Renderer")
    case False
    then have "requests (fst (streamRendererFunctionWithRetry tb env opts dir payload s (a # rest))) = requests s @ []"
      by (simp add: streamRendererFunctionWithRetry.simps)
    then show ?thesis by (intro exI[of _ "[]"]) simp
  next
    case True
    then obtain s1 where sr: "streamRenderer tb env opts dir payload s (respond a payload) = Inr s1"
      using streamRenderer_total by blast
    have req: "requests s1 = requests s @ [payload]" by (rule streamRenderer_requests[OF sr])
    show ?thesis
    proof (cases "\<exists>e. resolved s1 = Some (Error e True)")
      case False
      then have "fst (streamRendererFunctionWithRetry tb env opts dir payload s (a # rest)) = s1"
        using True sr by (auto simp: streamRendererFunctionWithRetry.simps split: option.splits streamRendererResponse.splits)
      then have "requests (fst (streamRendererFunctionWithRetry tb env opts dir payload s (a # rest)))
          = requests s @ [payload]" using req by simp
      then show ?thesis by (intro exI[of _ "[payload]"]) simp
    next
      case r: True
      then obtain e where e: "resolved s1 = Some (Error e True)" by blast
      let ?p = "retryPayload env payload"
      let ?s = "progressCall (AddRetry (roundNumber env (attempt payload + 1)) (dateNow a) (chunk payload)) s1"
      have pos: "0 < retriesLeft payload"
        using retry_flag_from_worker[OF _ sr e] Cons.prems(1) by simp
      note exact = retryPayload_on_counts[OF Cons.prems(2) Cons.prems(3) pos]
      have unfold: "streamRendererFunctionWithRetry tb env opts dir payload s (a # rest)
          = streamRendererFunctionWithRetry tb env opts dir ?p ?s rest"
        using True sr e by (simp add: streamRendererFunctionWithRetry.simps)
      from Cons.IH[of ?p ?s] Cons.prems(1,2) exact(3) obtain ps where ps:
        "requests (fst (streamRendererFunctionWithRetry tb env opts dir ?p ?s rest)) = requests ?s @ ps"
        "retryChain ps" "ps \<noteq> [] \<longrightarrow> hd ps = ?p"
        by auto
      have chain: "retryChain (payload # ps)"
      proof (cases ps)
        case Nil
        then show ?thesis by simp
      next
        case (Cons q qs)
        with ps(3) have "q = payload\<lparr>attempt := attempt payload + 1, retriesLeft := retriesLeft payload - 1\<rparr>"
          using exact(1) by simp
        with Cons ps(2) exact(2) show ?thesis by simp
      qed
      have "requests (fst (streamRendererFunctionWithRetry tb env opts dir payload s (a # rest)))
          = requests s @ (payload # ps)"
        using unfold ps(1) req by (simp add: requests_progressCall)
      with chain show ?thesis by (intro exI[of _ "payload # ps"]) simp
    qed
  qed
qed

theorem C8_retry_chain_witness:
  "exactOnSafeIntegers (roundNumber exampleEnv)
   \<and> safeCounts examplePayload
   \<and> requests (fst (streamRendererFunctionWithRetry exampleTables exampleEnv exampleOptions ''/tmp/out''
       examplePayload emptyState
       [\<lparr>respond = failingAnswer, dateNow = 1000\<rparr>, \<lparr>respond = failingAnswer, dateNow = 2000\<rparr>,
        \<lparr>respond = failingAnswer, dateNow = 3000\<rparr>]))
     = [examplePayload, examplePayload\<lparr>attempt := 2, retriesLeft := 0\<rparr>]
   \<and> retryChain [examplePayload, examplePayload\<lparr>attempt := 2, retriesLeft := 0\<rparr>]"
proof -
  let ?ats = "[\<lparr>respond = failingAnswer, dateNow = 1000\<rparr>, \<lparr>respond = failingAnswer, dateNow = 2000\<rparr>,
        \<lparr>respond = failingAnswer, dateNow = 3000\<rparr>]"
  have fw: "\<forall>a\<in>set ?ats. \<forall>p. \<forall>ivk\<in>set (respond a p). \<forall>fr\<in>set (framesOf ivk).
              fromRendererHandler exampleTables exampleEnv p fr"
    using failingAnswer_fromRendererHandler by simp
  have rnd: "exactOnSafeIntegers (roundNumber exampleEnv)"
    by (simp add: exactOnSafeIntegers_def exampleEnv_def)
  have safe: "safeCounts examplePayload"
    by (simp add: safeCounts_def examplePayload_def)
  have run: "requests (fst (streamRendererFunctionWithRetry exampleTables exampleEnv exampleOptions ''/tmp/out''
       examplePayload emptyState ?ats))
     = [examplePayload, examplePayload\<lparr>attempt := 2, retriesLeft := 0\<rparr>]"
    by (simp add: run_defs failingAnswer_def)
  from C8_retry_chain [where opts = exampleOptions and dir = "''/tmp/out''" and s = emptyState,
      OF fw rnd safe]
  obtain ps where
    "requests (fst (streamRendererFunctionWithRetry exampleTables exampleEnv exampleOptions ''/tmp/out''
       examplePayload emptyState ?ats)) = requests emptyState @ ps" "retryChain ps"
    by blast
  then have "retryChain [examplePayload, examplePayload\<lparr>attempt := 2, retriesLeft := 0\<rparr>]"
    unfolding run by (simp add: emptyState_def)
  with run rnd safe show ?thesis by blast
qed

end
